theory Spec2Isabelle
  imports Complex_Main
begin

section \<open>Python values\<close>

text \<open>
  The calculators work on Python floats. They are embedded as real numbers: rounding
  and the special values of IEEE arithmetic are outside the model, and every statement
  below is about the exact arithmetic the formulas denote. What Python does beyond
  returning a number is kept: a float division by zero raises ZeroDivisionError,
  \<^verbatim>\<open>math.log\<close> of a non-positive number raises ValueError, an index into an empty list
  raises IndexError, and a float power \<^verbatim>\<open>x ** n\<close> whose result leaves the range of a float
  raises OverflowError (a product or a quotient that overflows raises nothing). A call
  that raises has the value \<open>Inl\<close> of the exception.
\<close>

datatype error = ValueError | ZeroDivisionError | IndexError | OverflowError

definition py_div :: "real \<Rightarrow> real \<Rightarrow> error + real" where
  "py_div a b = (if b = 0 then Inl ZeroDivisionError else Inr (a / b))"

definition math_log :: "real \<Rightarrow> error + real" where
  "math_log x = (if x \<le> 0 then Inl ValueError else Inr (ln x))"

text \<open>
  A binary64 result rounds to infinity from \<open>2 ^ 1024 - 2 ^ 970\<close> on (the largest float
  plus half a unit in its last place); \<^verbatim>\<open>x ** n\<close> raises OverflowError exactly then.
\<close>

definition float_overflow :: real where
  "float_overflow = 2 ^ 1024 - 2 ^ 970"

definition py_pow :: "real \<Rightarrow> nat \<Rightarrow> error + real" where
  "py_pow x n = (if float_overflow \<le> \<bar>x ^ n\<bar> then Inl OverflowError else Inr (x ^ n))"

section \<open>cable_model_iec60287.py: CableLayer\<close>

record CableLayer =
  name :: string
  material :: string
  inner_radius :: real
  outer_radius :: real
  thermal_conductivity :: real
  resistivity :: real
  temp_coefficient :: real

text \<open>
  \<^verbatim>\<open>CableLayer.get_thermal_resistance(self, length=1.0)\<close>. The guard on the radii returns
  \<open>0.0\<close>; after it the quotient of the radii is above one, so only the division by the
  conductivity can raise. The parameter \<open>len\<close> is the source's unused \<open>length\<close>.
\<close>

definition get_thermal_resistance :: "CableLayer \<Rightarrow> real \<Rightarrow> error + real" where
  "get_thermal_resistance l len =
     (if inner_radius l \<le> 0 \<or> outer_radius l \<le> inner_radius l then Inr 0
      else case py_div 1 (thermal_conductivity l) of
        Inl e \<Rightarrow> Inl e
      | Inr rho_thermal \<Rightarrow>
          (case py_div (outer_radius l) (inner_radius l) of
             Inl e \<Rightarrow> Inl e
           | Inr q \<Rightarrow>
               (case math_log q of
                  Inl e \<Rightarrow> Inl e
                | Inr lg \<Rightarrow> py_div (rho_thermal * lg) (2 * pi))))"

text \<open>
  \<^verbatim>\<open>CableLayer.get_electrical_resistance(self, length=1.0, temperature=20.0)\<close>. The
  division by the area is guarded; the two squares of the radii can overflow.
\<close>

definition get_electrical_resistance :: "CableLayer \<Rightarrow> real \<Rightarrow> real \<Rightarrow> error + real" where
  "get_electrical_resistance l len temperature =
     (if resistivity l \<le> 0 then Inr 0
      else case py_pow (outer_radius l) 2 of
        Inl e \<Rightarrow> Inl e
      | Inr outer_sq \<Rightarrow>
          (case py_pow (inner_radius l) 2 of
             Inl e \<Rightarrow> Inl e
           | Inr inner_sq \<Rightarrow>
               (let area = pi * (outer_sq - inner_sq) in
                if area \<le> 0 then Inr 0
                else let r_20 = resistivity l * len / area in
                  Inr (r_20 * (1 + temp_coefficient l * (temperature - 20))))))"

section \<open>cable_model_iec60287.py: CableConfiguration\<close>

record CableConfiguration =
  cfg_name :: string
  layers :: "CableLayer list"
  external_layers :: "CableLayer list"
  current :: real
  ambient_temp :: real
  max_conductor_temp :: real

text \<open>
  The detail dictionary of the temperature solver. The key \<open>max_current_A\<close> is absent
  (\<open>None\<close>) until \<open>calculate_max_current\<close> adds it.
\<close>

record details =
  conductor_temp_C :: real
  ambient_temp_C :: real
  losses_W_per_m :: real
  thermal_resistance_K_m_W :: real
  current_A :: real
  iterations :: nat
  max_allowed_temp_C :: real
  max_current_A :: "real option"

definition get_conductor_layer :: "'a CableConfiguration_scheme \<Rightarrow> error + CableLayer" where
  "get_conductor_layer cfg =
     (case layers cfg of [] \<Rightarrow> Inl ValueError | conductor # _ \<Rightarrow> Inr conductor)"

definition calculate_conductor_losses ::
  "'a CableConfiguration_scheme \<Rightarrow> real option \<Rightarrow> error + real" where
  "calculate_conductor_losses cfg temperature =
     (let t = (case temperature of None \<Rightarrow> max_conductor_temp cfg | Some t' \<Rightarrow> t') in
      case get_conductor_layer cfg of
        Inl e \<Rightarrow> Inl e
      | Inr conductor \<Rightarrow>
          (case get_electrical_resistance conductor 1 t of
             Inl e \<Rightarrow> Inl e
           | Inr r_conductor \<Rightarrow>
               (case py_pow (current cfg) 2 of
                  Inl e \<Rightarrow> Inl e
                | Inr current_sq \<Rightarrow> Inr (current_sq * r_conductor))))"

text \<open>The two accumulating loops of \<open>get_total_thermal_resistance\<close> share one body.\<close>

fun add_thermal_resistances :: "real \<Rightarrow> CableLayer list \<Rightarrow> error + real" where
  "add_thermal_resistances r_total [] = Inr r_total"
| "add_thermal_resistances r_total (layer # rest) =
     (case get_thermal_resistance layer 1 of
        Inl e \<Rightarrow> Inl e
      | Inr r \<Rightarrow> add_thermal_resistances (r_total + r) rest)"

definition get_total_thermal_resistance :: "'a CableConfiguration_scheme \<Rightarrow> error + real" where
  "get_total_thermal_resistance cfg =
     (case add_thermal_resistances 0 (layers cfg) of
        Inl e \<Rightarrow> Inl e
      | Inr r_total \<Rightarrow> add_thermal_resistances r_total (external_layers cfg))"

text \<open>
  The loop of \<open>calculate_conductor_temperature\<close>, \<^verbatim>\<open>for iteration in range(10)\<close>: the list
  holds the values \<open>iteration\<close> has still to take, the tuple is
  \<open>(t_conductor, losses, r_thermal, iteration)\<close>. On \<^verbatim>\<open>break\<close> the candidate
  \<open>t_conductor\<close> keeps its old value, while \<open>losses\<close>, \<open>r_thermal\<close> and \<open>iteration\<close>
  are those of the breaking pass.
\<close>

fun temperature_loop ::
  "'a CableConfiguration_scheme \<Rightarrow> nat list \<Rightarrow> real \<times> real \<times> real \<times> nat \<Rightarrow>
     error + real \<times> real \<times> real \<times> nat" where
  "temperature_loop cfg [] s = Inr s"
| "temperature_loop cfg (i # rest) (t_conductor, losses, r_thermal, iteration) =
     (case calculate_conductor_losses cfg (Some t_conductor) of
        Inl e \<Rightarrow> Inl e
      | Inr losses' \<Rightarrow>
          (case get_total_thermal_resistance cfg of
             Inl e \<Rightarrow> Inl e
           | Inr r_thermal' \<Rightarrow>
               (let t_new = ambient_temp cfg + losses' * r_thermal' in
                if \<bar>t_new - t_conductor\<bar> < 0.1 then Inr (t_conductor, losses', r_thermal', i)
                else temperature_loop cfg rest (t_new, losses', r_thermal', i))))"

definition calculate_conductor_temperature ::
  "'a CableConfiguration_scheme \<Rightarrow> error + real \<times> details" where
  "calculate_conductor_temperature cfg =
     (case temperature_loop cfg [0..<10] (max_conductor_temp cfg, 0, 0, 0) of
        Inl e \<Rightarrow> Inl e
      | Inr (t_conductor, losses, r_thermal, iteration) \<Rightarrow>
          Inr (t_conductor,
            \<lparr>conductor_temp_C = t_conductor,
             ambient_temp_C = ambient_temp cfg,
             losses_W_per_m = losses,
             thermal_resistance_K_m_W = r_thermal,
             current_A = current cfg,
             iterations = iteration + 1,
             max_allowed_temp_C = max_conductor_temp cfg,
             max_current_A = None\<rparr>))"

text \<open>
  \<open>calculate_temperature_profile\<close>: the loop appends, for every layer, the temperature
  at its inner radius and, after the drop over the layer, at its outer radius.
\<close>

fun profile_loop ::
  "real \<Rightarrow> CableLayer list \<Rightarrow> real \<Rightarrow> (real \<times> real \<times> string) list \<Rightarrow>
     error + (real \<times> real \<times> string) list" where
  "profile_loop losses [] current_temp profile = Inr profile"
| "profile_loop losses (layer # rest) current_temp profile =
     (let profile1 = profile @ [(inner_radius layer, current_temp, name layer)] in
      case get_thermal_resistance layer 1 of
        Inl e \<Rightarrow> Inl e
      | Inr r \<Rightarrow>
          (let delta_t = losses * r;
               current_temp' = current_temp - delta_t;
               profile2 = profile1 @ [(outer_radius layer, current_temp', name layer)]
           in profile_loop losses rest current_temp' profile2))"

definition calculate_temperature_profile ::
  "'a CableConfiguration_scheme \<Rightarrow> error + (real \<times> real \<times> string) list" where
  "calculate_temperature_profile cfg =
     (case calculate_conductor_temperature cfg of
        Inl e \<Rightarrow> Inl e
      | Inr (t_conductor, _) \<Rightarrow>
          (case calculate_conductor_losses cfg (Some t_conductor) of
             Inl e \<Rightarrow> Inl e
           | Inr losses \<Rightarrow> profile_loop losses (layers cfg) t_conductor []))"

text \<open>
  \<open>calculate_max_current\<close> assigns to \<open>self.current\<close>, so it is embedded with the
  configuration passed through: the result is the returned value or the exception,
  paired with the configuration as the call leaves it. The temperature solver contains
  no assignment to a field; \<open>run_conductor_temperature\<close> is that call in the same
  state-passing form. The loop \<^verbatim>\<open>for _ in range(20)\<close> never reads its variable, so the
  number of passes left is all the model keeps of it.
\<close>

definition run_conductor_temperature ::
  "CableConfiguration \<Rightarrow> (error + real \<times> details) \<times> CableConfiguration" where
  "run_conductor_temperature cfg = (calculate_conductor_temperature cfg, cfg)"

fun max_current_loop ::
  "nat \<Rightarrow> real \<Rightarrow> real \<Rightarrow> CableConfiguration \<Rightarrow> (error + unit) \<times> CableConfiguration" where
  "max_current_loop 0 i_min i_max cfg = (Inr (), cfg)"
| "max_current_loop (Suc n) i_min i_max cfg =
     (let i_test = (i_min + i_max) / 2;
          cfg1 = cfg\<lparr>current := i_test\<rparr>
      in case run_conductor_temperature cfg1 of
           (Inl e, cfg2) \<Rightarrow> (Inl e, cfg2)
         | (Inr (t_conductor, _), cfg2) \<Rightarrow>
             if \<bar>t_conductor - max_conductor_temp cfg2\<bar> < 0.5 then (Inr (), cfg2)
             else if t_conductor > max_conductor_temp cfg2
               then max_current_loop n i_min i_test cfg2
               else max_current_loop n i_test i_max cfg2)"

definition calculate_max_current ::
  "CableConfiguration \<Rightarrow> (error + real \<times> details) \<times> CableConfiguration" where
  "calculate_max_current cfg =
     (case max_current_loop 20 0 10000 cfg of
        (Inl e, cfg1) \<Rightarrow> (Inl e, cfg1)
      | (Inr _, cfg1) \<Rightarrow>
          (case run_conductor_temperature cfg1 of
             (Inl e, cfg2) \<Rightarrow> (Inl e, cfg2)
           | (Inr (t_final, d), cfg2) \<Rightarrow>
               (Inr (current cfg2, d\<lparr>max_current_A := Some (current cfg2)\<rparr>), cfg2)))"

text \<open>
  The current returned by \<open>calculate_max_current\<close>, fed back into the temperature
  solver: \<open>solved_temperature cfg i\<close> is the conductor temperature the solver returns
  for the configuration \<open>cfg\<close> carrying the current \<open>i\<close>.
\<close>

definition solved_temperature :: "CableConfiguration \<Rightarrow> real \<Rightarrow> error + real" where
  "solved_temperature cfg i =
     (case calculate_conductor_temperature (cfg\<lparr>current := i\<rparr>) of
        Inl e \<Rightarrow> Inl e
      | Inr (t_conductor, _) \<Rightarrow> Inr t_conductor)"


text \<open>
  One pass of the loop body of \<open>calculate_conductor_temperature\<close>: the new candidate
  \<open>t_new\<close> computed from the candidate \<open>t_conductor\<close>.
\<close>

definition next_candidate :: "'a CableConfiguration_scheme \<Rightarrow> real \<Rightarrow> error + real" where
  "next_candidate cfg t_conductor =
     (case calculate_conductor_losses cfg (Some t_conductor) of
        Inl e \<Rightarrow> Inl e
      | Inr losses \<Rightarrow>
          (case get_total_thermal_resistance cfg of
             Inl e \<Rightarrow> Inl e
           | Inr r_thermal \<Rightarrow> Inr (ambient_temp cfg + losses * r_thermal)))"

subsection \<open>The fixed-point iteration as the specification words it\<close>

text \<open>
  The conductor's electrical resistance at the temperature \<open>T\<close>,
  \<open>R(T) = R_ref * (1 + alpha * (T - T_ref))\<close> with \<open>T_ref = 20\<close> and \<open>R_ref\<close> the
  resistivity times one metre over the cross-section.
\<close>

definition spec_conductor_resistance :: "CableLayer \<Rightarrow> real \<Rightarrow> real" where
  "spec_conductor_resistance conductor T =
     (resistivity conductor * 1 /
        (pi * ((outer_radius conductor)\<^sup>2 - (inner_radius conductor)\<^sup>2))) *
     (1 + temp_coefficient conductor * (T - 20))"

text \<open>
  The thermal resistance of one shell, \<open>ln (outer_radius / inner_radius) / (2 * pi *
  conductivity)\<close>, and the total series resistance: the sum over the internal and the
  external layers, in sequence order, of the shells that meet the formula's
  precondition \<open>outer_radius > inner_radius > 0\<close> (a conductor whose inner radius is zero
  has no shell resistance).
\<close>

definition spec_layer_resistance :: "CableLayer \<Rightarrow> real" where
  "spec_layer_resistance l =
     ln (outer_radius l / inner_radius l) / (2 * pi * thermal_conductivity l)"

definition spec_total_thermal_resistance :: "'a CableConfiguration_scheme \<Rightarrow> real" where
  "spec_total_thermal_resistance cfg =
     (\<Sum>l\<leftarrow>filter (\<lambda>l. 0 < inner_radius l \<and> inner_radius l < outer_radius l)
                 (layers cfg @ external_layers cfg). spec_layer_resistance l)"

text \<open>
  One step of the specified iteration: losses \<open>P = current\<^sup>2 * R(T)\<close>, new candidate
  \<open>ambient_temp + P * R_th\<close>.
\<close>

definition spec_step :: "'a CableConfiguration_scheme \<Rightarrow> CableLayer \<Rightarrow> real \<Rightarrow> real" where
  "spec_step cfg conductor T =
     ambient_temp cfg +
       ((current cfg)\<^sup>2 * spec_conductor_resistance conductor T) *
         spec_total_thermal_resistance cfg"

text \<open>
  The specified state machine with a budget of \<open>n\<close> passes, started at \<open>T\<close>: it stops as
  soon as the new candidate is within 0.1 K of \<open>T\<close> and otherwise continues with the new
  candidate. The result is the final \<open>T\<close> and the number of passes made.
\<close>

fun spec_fixed_point :: "(real \<Rightarrow> real) \<Rightarrow> nat \<Rightarrow> real \<Rightarrow> real \<times> nat" where
  "spec_fixed_point step 0 T = (T, 0)"
| "spec_fixed_point step (Suc n) T =
     (let T_new = step T in
      if \<bar>T_new - T\<bar> < 0.1 then (T, 1)
      else (case spec_fixed_point step n T_new of (T', k) \<Rightarrow> (T', Suc k)))"

section \<open>enhanced_cable_model.py\<close>

text \<open>
  The first statements of \<open>EnhancedCableConfiguration.calculate_enhanced_losses\<close>, which
  compute the conductor's resistance \<open>r_dc\<close> and the losses \<open>losses_dc\<close>:
  \<^verbatim>\<open>conductor = self.layers[0]\<close> raises IndexError on an empty list, and
  \<^verbatim>\<open>conductor.get_electrical_resistance(temperature)\<close> passes its one positional argument
  to the first parameter, \<open>length\<close>; \<open>temperature\<close> keeps its default \<open>20.0\<close>.
\<close>

definition enhanced_losses_dc ::
  "'a CableConfiguration_scheme \<Rightarrow> real \<Rightarrow> real \<Rightarrow> error + real \<times> real" where
  "enhanced_losses_dc cfg current_arg temperature =
     (case layers cfg of
        [] \<Rightarrow> Inl IndexError
      | conductor # _ \<Rightarrow>
          (case get_electrical_resistance conductor temperature 20 of
             Inl e \<Rightarrow> Inl e
           | Inr r_dc \<Rightarrow>
               (case py_pow current_arg 2 of
                  Inl e \<Rightarrow> Inl e
                | Inr current_sq \<Rightarrow> (let losses_dc = current_sq * r_dc in Inr (r_dc, losses_dc)))))"

section \<open>cable_spacing_optimization.py\<close>

definition calculate_mutual_thermal_resistance :: "real \<Rightarrow> real \<Rightarrow> real \<Rightarrow> error + real" where
  "calculate_mutual_thermal_resistance distance depth soil_resistivity =
     (if distance \<le> 0 then Inr 0
      else case py_div soil_resistivity (2 * pi) of
        Inl e \<Rightarrow> Inl e
      | Inr k \<Rightarrow>
          (case py_div (2 * depth) distance of
             Inl e \<Rightarrow> Inl e
           | Inr q \<Rightarrow>
               (case math_log q of
                  Inl e \<Rightarrow> Inl e
                | Inr lg \<Rightarrow> (let R_mutual = k * lg in Inr (max 0 R_mutual)))))"

section \<open>material_database.py and thermal_calculator.py\<close>

record material_props =
  lambda :: real
  density :: real
  specific_heat :: real

text \<open>
  The class-level dictionary \<open>MATERIALS\<close> is mutable (\<open>add_custom_material\<close>), so the
  operations take the database as an argument; \<open>MATERIALS\<close> is its initial content.
\<close>

type_synonym material_db = "string \<rightharpoonup> material_props"

definition MATERIALS :: material_db where
  "MATERIALS = map_of [
    (''Beton (Normal)'', \<lparr>lambda = 2.1, density = 2400, specific_heat = 1000\<rparr>),
    (''Beton (Leicht)'', \<lparr>lambda = 0.8, density = 1800, specific_heat = 1000\<rparr>),
    (''Stahlbeton'', \<lparr>lambda = 2.5, density = 2500, specific_heat = 1000\<rparr>),
    (''M'' @ [CHR 0xF6] @ ''rtel'', \<lparr>lambda = 1.2, density = 1900, specific_heat = 1000\<rparr>),
    (''Ziegel (Vollziegel)'', \<lparr>lambda = 0.8, density = 1800, specific_heat = 1000\<rparr>),
    (''Ziegel (Hochlochziegel)'', \<lparr>lambda = 0.35, density = 800, specific_heat = 1000\<rparr>),
    (''Porenbeton'', \<lparr>lambda = 0.16, density = 500, specific_heat = 1000\<rparr>),
    (''Kalksandstein'', \<lparr>lambda = 0.8, density = 1800, specific_heat = 1000\<rparr>),
    (''Mineralwolle'', \<lparr>lambda = 0.04, density = 100, specific_heat = 840\<rparr>),
    (''Polystyrol (EPS)'', \<lparr>lambda = 0.035, density = 30, specific_heat = 1500\<rparr>),
    (''Polystyrol (XPS)'', \<lparr>lambda = 0.032, density = 35, specific_heat = 1500\<rparr>),
    (''Polyurethan (PUR)'', \<lparr>lambda = 0.025, density = 40, specific_heat = 1400\<rparr>),
    (''Steinwolle'', \<lparr>lambda = 0.045, density = 150, specific_heat = 840\<rparr>),
    (''Glaswolle'', \<lparr>lambda = 0.04, density = 100, specific_heat = 840\<rparr>),
    (''Holz (Weich)'', \<lparr>lambda = 0.13, density = 500, specific_heat = 1600\<rparr>),
    (''Holz (Hart)'', \<lparr>lambda = 0.18, density = 700, specific_heat = 1600\<rparr>),
    (''Sperrholz'', \<lparr>lambda = 0.15, density = 600, specific_heat = 1600\<rparr>),
    (''Spanplatte'', \<lparr>lambda = 0.12, density = 650, specific_heat = 1600\<rparr>),
    (''Stahl'', \<lparr>lambda = 50.0, density = 7850, specific_heat = 460\<rparr>),
    (''Aluminium'', \<lparr>lambda = 160.0, density = 2700, specific_heat = 880\<rparr>),
    (''Kupfer'', \<lparr>lambda = 380.0, density = 8900, specific_heat = 380\<rparr>),
    (''Zink'', \<lparr>lambda = 110.0, density = 7200, specific_heat = 380\<rparr>),
    (''Kupferleiter'', \<lparr>lambda = 380.0, density = 8900, specific_heat = 380\<rparr>),
    (''Aluminiumleiter'', \<lparr>lambda = 230.0, density = 2700, specific_heat = 880\<rparr>),
    (''Glas (Normal)'', \<lparr>lambda = 1.0, density = 2500, specific_heat = 840\<rparr>),
    (''Isolierglas (2-fach)'', \<lparr>lambda = 0.3, density = 2500, specific_heat = 840\<rparr>),
    (''Isolierglas (3-fach)'', \<lparr>lambda = 0.2, density = 2500, specific_heat = 840\<rparr>),
    (''Gips'', \<lparr>lambda = 0.35, density = 1200, specific_heat = 1000\<rparr>),
    (''Gipskarton'', \<lparr>lambda = 0.25, density = 900, specific_heat = 1000\<rparr>),
    (''Lehm'', \<lparr>lambda = 0.8, density = 1600, specific_heat = 1000\<rparr>),
    (''Kork'', \<lparr>lambda = 0.045, density = 200, specific_heat = 1800\<rparr>),
    (''Bitumen'', \<lparr>lambda = 0.17, density = 1050, specific_heat = 1000\<rparr>),
    (''Kunststoff (PE)'', \<lparr>lambda = 0.4, density = 950, specific_heat = 2300\<rparr>),
    (''XLPE (Vernetztes Polyethylen)'', \<lparr>lambda = 0.286, density = 920, specific_heat = 2400\<rparr>),
    (''EPR (Ethylen-Propylen)'', \<lparr>lambda = 0.4, density = 1100, specific_heat = 2000\<rparr>),
    (''PVC (Polyvinylchlorid)'', \<lparr>lambda = 0.16, density = 1400, specific_heat = 1000\<rparr>),
    (''PE (Polyethylen)'', \<lparr>lambda = 0.4, density = 950, specific_heat = 2300\<rparr>),
    (''Halbleitende XLPE'', \<lparr>lambda = 0.286, density = 920, specific_heat = 2400\<rparr>),
    (''PE-Schutzrohr'', \<lparr>lambda = 0.4, density = 950, specific_heat = 2300\<rparr>),
    (''PVC-Schutzrohr'', \<lparr>lambda = 0.16, density = 1400, specific_heat = 1000\<rparr>),
    (''Stahlrohr'', \<lparr>lambda = 50.0, density = 7850, specific_heat = 460\<rparr>),
    (''Erdreich (trocken)'', \<lparr>lambda = 0.5, density = 1600, specific_heat = 1000\<rparr>),
    (''Erdreich (feucht)'', \<lparr>lambda = 2.0, density = 1800, specific_heat = 1000\<rparr>),
    (''Sand (trocken)'', \<lparr>lambda = 0.4, density = 1500, specific_heat = 800\<rparr>),
    (''Sand (feucht)'', \<lparr>lambda = 1.5, density = 1700, specific_heat = 1000\<rparr>),
    (''Luftschicht (ruhend)'', \<lparr>lambda = 0.026, density = 1.2, specific_heat = 1000\<rparr>)
   ]"

definition get_material :: "material_db \<Rightarrow> string \<Rightarrow> material_props option" where
  "get_material db n = db n"

definition get_lambda :: "material_db \<Rightarrow> string \<Rightarrow> real option" where
  "get_lambda db n = (case get_material db n of None \<Rightarrow> None | Some m \<Rightarrow> Some (lambda m))"

text \<open>
  \<open>ThermalCalculator.calculate_heat_flow\<close>, with the database as an argument. The
  material name is a string by its type; an empty one is rejected.
\<close>

record heat_flow_result =
  heat_flow_W :: real
  heat_flux_W_m2 :: real
  thermal_resistance_m2K_W :: real
  hf_lambda_W_mK :: real
  hf_material :: string

definition calculate_heat_flow ::
  "material_db \<Rightarrow> string \<Rightarrow> real \<Rightarrow> real \<Rightarrow> real \<Rightarrow> error + heat_flow_result" where
  "calculate_heat_flow db material_name area thickness temp_diff =
     (if material_name = [] then Inl ValueError
      else if area \<le> 0 then Inl ValueError
      else if thickness \<le> 0 then Inl ValueError
      else case get_lambda db material_name of
        None \<Rightarrow> Inl ValueError
      | Some lambda_value \<Rightarrow>
          if lambda_value \<le> 0 then Inl ValueError
          else
            (let heat_flow = lambda_value * area * temp_diff / thickness;
                 heat_flux = (if area > 0 then heat_flow / area else 0);
                 thermal_resistance = thickness / lambda_value
             in Inr \<lparr>heat_flow_W = heat_flow, heat_flux_W_m2 = heat_flux,
                      thermal_resistance_m2K_W = thermal_resistance,
                      hf_lambda_W_mK = lambda_value, hf_material = material_name\<rparr>))"

text \<open>\<open>float('inf')\<close> is the one special float a result of \<open>calculate_u_value\<close> can hold.\<close>

datatype pyfloat = Finite real | Infinity

record layer_detail =
  ld_material :: string
  thickness_m :: real
  lambda_W_mK :: real
  resistance_m2K_W :: real

record u_value_result =
  u_value_W_m2K :: pyfloat
  total_resistance_m2K_W :: real
  R_si :: real
  R_se :: real
  layers_detail :: "layer_detail list"

fun u_value_loop ::
  "material_db \<Rightarrow> (string \<times> real) list \<Rightarrow> real \<Rightarrow> layer_detail list \<Rightarrow>
     error + real \<times> layer_detail list" where
  "u_value_loop db [] R_total layer_details = Inr (R_total, layer_details)"
| "u_value_loop db ((material_name, thickness) # rest) R_total layer_details =
     (case get_lambda db material_name of
        None \<Rightarrow> Inl ValueError
      | Some lambda_value \<Rightarrow>
          (case py_div thickness lambda_value of
             Inl e \<Rightarrow> Inl e
           | Inr R \<Rightarrow>
               u_value_loop db rest (R_total + R)
                 (layer_details @
                    [\<lparr>ld_material = material_name, thickness_m = thickness,
                      lambda_W_mK = lambda_value, resistance_m2K_W = R\<rparr>])))"

definition calculate_u_value ::
  "material_db \<Rightarrow> (string \<times> real) list \<Rightarrow> error + u_value_result" where
  "calculate_u_value db lays =
     (if lays = [] then Inl ValueError
      else let r_si = 0.13; r_se = 0.04 in
        case u_value_loop db lays (r_si + r_se) [] of
          Inl e \<Rightarrow> Inl e
        | Inr (R_total, layer_details) \<Rightarrow>
            Inr \<lparr>u_value_W_m2K = (if R_total > 0 then Finite (1 / R_total) else Infinity),
                 total_resistance_m2K_W = R_total,
                 R_si = r_si, R_se = r_se,
                 layers_detail = layer_details\<rparr>)"

section \<open>Example inputs\<close>

text \<open>
  A single copper conductor in the manner of the library's cables (the conductor's inner
  radius is zero, so its thermal resistance is zero by the guard), carrying 400 A.
\<close>

definition bare_conductor :: CableConfiguration where
  "bare_conductor =
     \<lparr>cfg_name = ''Cu 240'',
      layers = [\<lparr>name = ''Conductor (Cu)'', material = ''Copper'', inner_radius = 0,
                 outer_radius = 8.7, thermal_conductivity = 380, resistivity = 0.0175,
                 temp_coefficient = 0.00393\<rparr>],
      external_layers = [], current = 400, ambient_temp = 20, max_conductor_temp = 90\<rparr>"

text \<open>A layer of valid geometry whose thermal conductivity is zero.\<close>

definition zero_conductivity_cable :: CableConfiguration where
  "zero_conductivity_cable =
     \<lparr>cfg_name = ''Custom Cable'',
      layers = [\<lparr>name = ''Layer'', material = ''Custom'', inner_radius = 1,
                 outer_radius = 2, thermal_conductivity = 0, resistivity = 0,
                 temp_coefficient = 0\<rparr>],
      external_layers = [], current = 0, ambient_temp = 20, max_conductor_temp = 90\<rparr>"

text \<open>A conductor and its insulation, both of valid geometry, carrying 10 A.\<close>

definition insulated_wire :: CableConfiguration where
  "insulated_wire =
     \<lparr>cfg_name = ''Wire'',
      layers = [\<lparr>name = ''Conductor'', material = ''Copper'', inner_radius = 1,
                 outer_radius = 2, thermal_conductivity = 380, resistivity = 0.0175,
                 temp_coefficient = 0\<rparr>,
                \<lparr>name = ''Insulation'', material = ''XLPE'', inner_radius = 2,
                 outer_radius = 4, thermal_conductivity = 0.286, resistivity = 0,
                 temp_coefficient = 0\<rparr>],
      external_layers = [], current = 10, ambient_temp = 20, max_conductor_temp = 90\<rparr>"

text \<open>
  The cable of \<open>create_enhanced_mv_cable_in_air\<close> with its default arguments, as far as
  the base class's fields go; the dataclass constructor leaves the name and the maximal
  temperature unset, they are given the base constructor's defaults here.
\<close>

definition enhanced_mv_cable_in_air :: CableConfiguration where
  "enhanced_mv_cable_in_air =
     \<lparr>cfg_name = ''Custom Cable'',
      layers =
        [\<lparr>name = ''Leiter (Cu)'', material = ''Kupfer'', inner_radius = 0,
           outer_radius = 9.79, thermal_conductivity = 380, resistivity = 0.01724,
           temp_coefficient = 0.00393\<rparr>,
         \<lparr>name = ''Leiter-Halbleiter'', material = ''XLPE'', inner_radius = 9.79,
           outer_radius = 11.29, thermal_conductivity = 0.286, resistivity = 0,
           temp_coefficient = 0\<rparr>,
         \<lparr>name = ''Isolierung (XLPE)'', material = ''XLPE'', inner_radius = 11.29,
           outer_radius = 20.79, thermal_conductivity = 0.286, resistivity = 0,
           temp_coefficient = 0\<rparr>,
         \<lparr>name = ''Isolierungs-Halbleiter'', material = ''XLPE'', inner_radius = 20.79,
           outer_radius = 22.29, thermal_conductivity = 0.286, resistivity = 0,
           temp_coefficient = 0\<rparr>,
         \<lparr>name = ''Kupferschirm'', material = ''Kupfer'', inner_radius = 22.29,
           outer_radius = 23.29, thermal_conductivity = 380, resistivity = 0,
           temp_coefficient = 0\<rparr>,
         \<lparr>name = ''Au'' @ [CHR 0xDF] @ ''enmantel (PVC)'', material = ''PVC'', inner_radius = 23.29,
           outer_radius = 25.79, thermal_conductivity = 0.16, resistivity = 0,
           temp_coefficient = 0\<rparr>],
      external_layers = [], current = 400, ambient_temp = 25, max_conductor_temp = 90\<rparr>"


text \<open>
  A thin copper conductor with its insulation, carrying the search's upper bound of
  10000 A: the fixed-point iteration moves away from its starting point at every pass.
\<close>

definition overloaded_cable :: CableConfiguration where
  "overloaded_cable =
     \<lparr>cfg_name = ''Overloaded'',
      layers = [\<lparr>name = ''Conductor (Cu)'', material = ''Copper'', inner_radius = 0,
                 outer_radius = 2, thermal_conductivity = 380, resistivity = 0.0175,
                 temp_coefficient = 0.00393\<rparr>,
                \<lparr>name = ''Insulation (XLPE)'', material = ''XLPE'', inner_radius = 2,
                 outer_radius = 4, thermal_conductivity = 0.286, resistivity = 0,
                 temp_coefficient = 0\<rparr>],
      external_layers = [], current = 10000, ambient_temp = 20, max_conductor_temp = 90\<rparr>"


section \<open>The layer's thermal resistance\<close>

lemma ln_2_ge_quarter: "1 / 4 \<le> ln (2::real)"
proof -
  have "(1/2) - (1/2)\<^sup>2 \<le> ln (1 + (1/2) :: real)"
    by (rule ln_one_plus_pos_lower_bound) simp_all
  also have "ln (1 + (1/2) :: real) \<le> ln 2" by simp
  finally show ?thesis by (simp add: power2_eq_square)
qed

lemma get_thermal_resistance_valid:
  assumes "0 < inner_radius l" and "inner_radius l < outer_radius l"
    and "thermal_conductivity l \<noteq> 0"
  shows "get_thermal_resistance l len =
    Inr (ln (outer_radius l / inner_radius l) / (2 * pi * thermal_conductivity l))"
proof -
  from assms have "0 < outer_radius l" by simp
  with assms have "0 < outer_radius l / inner_radius l" by (rule_tac divide_pos_pos)
  then have q: "\<not> outer_radius l / inner_radius l \<le> 0" by (simp only: not_le)
  from assms show ?thesis
    by (simp add: get_thermal_resistance_def py_div_def math_log_def q)
qed

lemma get_thermal_resistance_guard:
  "inner_radius l \<le> 0 \<or> outer_radius l \<le> inner_radius l \<Longrightarrow>
     get_thermal_resistance l len = Inr 0"
  by (simp add: get_thermal_resistance_def)

lemma get_thermal_resistance_zero_conductivity:
  "0 < inner_radius l \<Longrightarrow> inner_radius l < outer_radius l \<Longrightarrow>
     thermal_conductivity l = 0 \<Longrightarrow> get_thermal_resistance l len = Inl ZeroDivisionError"
  by (simp add: get_thermal_resistance_def py_div_def)

text \<open>
  C1. For a layer with \<open>0 < inner_radius < outer_radius\<close> and a positive thermal
  conductivity, \<open>get_thermal_resistance\<close> returns
  \<open>ln (outer_radius / inner_radius) / (2 * pi * thermal_conductivity)\<close>; for the radii
  10 mm and 20 mm and the conductivity 1 W/(m K) this is \<open>ln 2 / (2 * pi)\<close>.
\<close>

theorem thermal_resistance_formula:
  "(0 < inner_radius l \<and> inner_radius l < outer_radius l \<and> 0 < thermal_conductivity l \<longrightarrow>
      get_thermal_resistance l len =
        Inr (ln (outer_radius l / inner_radius l) / (2 * pi * thermal_conductivity l)))
   \<and> get_thermal_resistance
        \<lparr>name = n, material = m, inner_radius = 10, outer_radius = 20,
         thermal_conductivity = 1, resistivity = r, temp_coefficient = a\<rparr> len
      = Inr (ln 2 / (2 * pi))"
proof
  show "0 < inner_radius l \<and> inner_radius l < outer_radius l \<and> 0 < thermal_conductivity l \<longrightarrow>
      get_thermal_resistance l len =
        Inr (ln (outer_radius l / inner_radius l) / (2 * pi * thermal_conductivity l))"
    using get_thermal_resistance_valid [of l len] by simp
next
  show "get_thermal_resistance
        \<lparr>name = n, material = m, inner_radius = 10, outer_radius = 20,
         thermal_conductivity = 1, resistivity = r, temp_coefficient = a\<rparr> len
      = Inr (ln 2 / (2 * pi))"
    by (simp add: get_thermal_resistance_valid)
qed

theorem thermal_resistance_formula_witness:
  "(0::real) < 3 \<and> (3::real) < 6 \<and> (0::real) < 2 \<and>
   get_thermal_resistance
     \<lparr>name = ''insulation'', material = ''XLPE'', inner_radius = 3, outer_radius = 6,
      thermal_conductivity = 2, resistivity = 0, temp_coefficient = 0\<rparr> 1
     = Inr (ln 2 / (4 * pi))"
  using thermal_resistance_formula
    [of "\<lparr>name = ''insulation'', material = ''XLPE'', inner_radius = 3, outer_radius = 6,
      thermal_conductivity = 2, resistivity = 0, temp_coefficient = 0\<rparr>" 1]
  by simp

text \<open>
  C2 (as stated, refuted). The claim wants a raised validation error whenever
  \<open>outer_radius \<le> inner_radius\<close> or \<open>thermal_conductivity \<le> 0\<close>. The method's first
  statement is a guard that returns \<open>0.0\<close> for such radii: a zero-thickness layer yields
  zero and no exception.
\<close>

theorem zero_thickness_returns_zero:
  "get_thermal_resistance
     \<lparr>name = ''sheath'', material = ''PVC'', inner_radius = 10, outer_radius = 10,
      thermal_conductivity = 1, resistivity = 0, temp_coefficient = 0\<rparr> 1 = Inr 0"
  by (simp add: get_thermal_resistance_def)

lemma calculate_heat_flow_invalid:
  "thickness \<le> 0 \<or> (case get_lambda db material_name of None \<Rightarrow> True | Some l \<Rightarrow> l \<le> 0) \<Longrightarrow>
     calculate_heat_flow db material_name area thickness temp_diff = Inl ValueError"
  by (auto simp: calculate_heat_flow_def split: option.splits)

text \<open>
  C2 (amended). When \<open>inner_radius \<le> 0\<close> or \<open>outer_radius \<le> inner_radius\<close> the method
  raises nothing and returns \<open>0.0\<close>, whatever the conductivity. When the radii pass the
  guard and the conductivity is exactly zero, the division \<open>1.0 / thermal_conductivity\<close>
  raises ZeroDivisionError and no value is returned. The planar \<open>calculate_heat_flow\<close>
  does validate: a thickness that is not positive, an unknown material or a conductivity
  that is not positive raises ValueError.
\<close>

theorem thermal_resistance_invalid_input:
  "(inner_radius l \<le> 0 \<or> outer_radius l \<le> inner_radius l \<longrightarrow>
      get_thermal_resistance l len = Inr 0)
   \<and> (0 < inner_radius l \<and> inner_radius l < outer_radius l \<and> thermal_conductivity l = 0 \<longrightarrow>
      get_thermal_resistance l len = Inl ZeroDivisionError)
   \<and> (thickness \<le> 0 \<or> (\<forall>v. get_lambda db material_name = Some v \<longrightarrow> v \<le> 0) \<longrightarrow>
      calculate_heat_flow db material_name area thickness temp_diff = Inl ValueError)"
  using get_thermal_resistance_guard [of l len]
    get_thermal_resistance_zero_conductivity [of l len]
    calculate_heat_flow_invalid [of thickness db material_name area temp_diff]
  by (auto split: option.splits)

theorem thermal_resistance_invalid_input_witness:
  "get_thermal_resistance
     \<lparr>name = ''a'', material = ''b'', inner_radius = 5, outer_radius = 4,
      thermal_conductivity = 0, resistivity = 0, temp_coefficient = 0\<rparr> 1 = Inr 0
   \<and> get_thermal_resistance
     \<lparr>name = ''a'', material = ''b'', inner_radius = 4, outer_radius = 5,
      thermal_conductivity = 0, resistivity = 0, temp_coefficient = 0\<rparr> 1
       = Inl ZeroDivisionError
   \<and> calculate_heat_flow MATERIALS ''Kupfer'' 10 0 20 = Inl ValueError"
  using thermal_resistance_invalid_input
    [of "\<lparr>name = ''a'', material = ''b'', inner_radius = 5, outer_radius = 4,
      thermal_conductivity = 0, resistivity = 0, temp_coefficient = 0\<rparr>" 1
      0 MATERIALS "''Kupfer''" 10 20]
    thermal_resistance_invalid_input
    [of "\<lparr>name = ''a'', material = ''b'', inner_radius = 4, outer_radius = 5,
      thermal_conductivity = 0, resistivity = 0, temp_coefficient = 0\<rparr>" 1]
  by simp

section \<open>The conductor-temperature solver\<close>

lemma py_pow_square: "x\<^sup>2 < float_overflow \<Longrightarrow> py_pow x 2 = Inr (x\<^sup>2)"
  by (simp add: py_pow_def)

lemma py_pow_square_overflow: "float_overflow \<le> x\<^sup>2 \<Longrightarrow> py_pow x 2 = Inl OverflowError"
  by (simp add: py_pow_def)

lemma get_electrical_resistance_returns:
  assumes "resistivity l \<le> 0 \<or>
    (outer_radius l)\<^sup>2 < float_overflow \<and> (inner_radius l)\<^sup>2 < float_overflow"
  shows "get_electrical_resistance l len T =
    Inr (if resistivity l \<le> 0 \<or> pi * ((outer_radius l)\<^sup>2 - (inner_radius l)\<^sup>2) \<le> 0 then 0
         else (resistivity l * len / (pi * ((outer_radius l)\<^sup>2 - (inner_radius l)\<^sup>2))) *
              (1 + temp_coefficient l * (T - 20)))"
  using assms by (auto simp: get_electrical_resistance_def py_pow_square Let_def)

lemma get_electrical_resistance_formula:
  assumes "0 < resistivity l" and "(inner_radius l)\<^sup>2 < (outer_radius l)\<^sup>2"
    and "(outer_radius l)\<^sup>2 < float_overflow"
  shows "get_electrical_resistance l len T =
    Inr ((resistivity l * len / (pi * ((outer_radius l)\<^sup>2 - (inner_radius l)\<^sup>2))) *
      (1 + temp_coefficient l * (T - 20)))"
proof -
  from assms have i: "(inner_radius l)\<^sup>2 < float_overflow" by simp
  from assms have "0 < pi * ((outer_radius l)\<^sup>2 - (inner_radius l)\<^sup>2)" by simp
  then have "\<not> pi * ((outer_radius l)\<^sup>2 - (inner_radius l)\<^sup>2) \<le> 0" by (simp only: not_le)
  with assms i show ?thesis
    by (subst get_electrical_resistance_returns) (simp_all only: not_le [symmetric] if_False simp_thms)
qed

lemma calculate_conductor_losses_value:
  assumes "layers cfg = conductor # rest"
    and "get_electrical_resistance conductor 1 T = Inr v"
    and "(current cfg)\<^sup>2 < float_overflow"
  shows "calculate_conductor_losses cfg (Some T) = Inr ((current cfg)\<^sup>2 * v)"
  using assms
  by (simp add: calculate_conductor_losses_def get_conductor_layer_def py_pow_square)

lemma add_thermal_resistances_sum:
  "\<forall>l\<in>set ls. 0 < inner_radius l \<and> inner_radius l < outer_radius l \<longrightarrow>
      thermal_conductivity l \<noteq> 0 \<Longrightarrow>
   add_thermal_resistances acc ls =
     Inr (acc + (\<Sum>l\<leftarrow>filter (\<lambda>l. 0 < inner_radius l \<and> inner_radius l < outer_radius l) ls.
                   spec_layer_resistance l))"
proof (induction ls arbitrary: acc)
  case Nil
  show ?case by simp
next
  case (Cons l ls)
  show ?case
  proof (cases "0 < inner_radius l \<and> inner_radius l < outer_radius l")
    case True
    with Cons.prems have "thermal_conductivity l \<noteq> 0" by simp
    with True have "get_thermal_resistance l 1 = Inr (spec_layer_resistance l)"
      by (simp add: get_thermal_resistance_valid spec_layer_resistance_def)
    with Cons.IH [of "acc + spec_layer_resistance l"] Cons.prems True show ?thesis
      by (simp add: add.assoc)
  next
    case False
    then have "get_thermal_resistance l 1 = Inr 0"
      by (simp add: get_thermal_resistance_guard not_less)
    with Cons.IH [of acc] Cons.prems False show ?thesis by auto
  qed
qed

lemma get_total_thermal_resistance_sum:
  assumes "\<forall>l\<in>set (layers cfg @ external_layers cfg).
      0 < inner_radius l \<and> inner_radius l < outer_radius l \<longrightarrow> thermal_conductivity l \<noteq> 0"
  shows "get_total_thermal_resistance cfg = Inr (spec_total_thermal_resistance cfg)"
proof -
  from assms have a: "\<forall>l\<in>set (layers cfg).
      0 < inner_radius l \<and> inner_radius l < outer_radius l \<longrightarrow> thermal_conductivity l \<noteq> 0"
    and b: "\<forall>l\<in>set (external_layers cfg).
      0 < inner_radius l \<and> inner_radius l < outer_radius l \<longrightarrow> thermal_conductivity l \<noteq> 0"
    by simp_all
  show ?thesis
    by (simp add: get_total_thermal_resistance_def spec_total_thermal_resistance_def
        add_thermal_resistances_sum [OF a] add_thermal_resistances_sum [OF b])
qed

lemma next_candidate_returns:
  assumes "layers cfg = conductor # rest"
    and "\<forall>l\<in>set (layers cfg @ external_layers cfg).
      0 < inner_radius l \<and> inner_radius l < outer_radius l \<longrightarrow> thermal_conductivity l \<noteq> 0"
    and "(current cfg)\<^sup>2 < float_overflow"
    and "resistivity conductor \<le> 0 \<or>
      (outer_radius conductor)\<^sup>2 < float_overflow \<and> (inner_radius conductor)\<^sup>2 < float_overflow"
  shows "\<exists>R. \<forall>T. next_candidate cfg T =
      Inr (ambient_temp cfg + ((current cfg)\<^sup>2 * R T) * spec_total_thermal_resistance cfg)"
proof -
  let ?R = "\<lambda>T. if resistivity conductor \<le> 0 \<or>
        pi * ((outer_radius conductor)\<^sup>2 - (inner_radius conductor)\<^sup>2) \<le> 0 then 0
      else (resistivity conductor * 1 /
              (pi * ((outer_radius conductor)\<^sup>2 - (inner_radius conductor)\<^sup>2))) *
           (1 + temp_coefficient conductor * (T - 20))"
  have "\<forall>T. next_candidate cfg T =
      Inr (ambient_temp cfg + ((current cfg)\<^sup>2 * ?R T) * spec_total_thermal_resistance cfg)"
  proof
    fix T
    from get_electrical_resistance_returns [OF assms(4)]
    have "get_electrical_resistance conductor 1 T = Inr (?R T)" .
    from calculate_conductor_losses_value [OF assms(1) this assms(3)]
    have "calculate_conductor_losses cfg (Some T) = Inr ((current cfg)\<^sup>2 * ?R T)" .
    then show "next_candidate cfg T =
      Inr (ambient_temp cfg + ((current cfg)\<^sup>2 * ?R T) * spec_total_thermal_resistance cfg)"
      by (simp only: next_candidate_def get_total_thermal_resistance_sum [OF assms(2)] sum.case)
  qed
  then show ?thesis by (rule exI [where x = ?R])
qed

lemma next_candidate_spec:
  assumes "layers cfg = conductor # rest"
    and "\<forall>l\<in>set (layers cfg @ external_layers cfg).
      0 < inner_radius l \<and> inner_radius l < outer_radius l \<longrightarrow> thermal_conductivity l \<noteq> 0"
    and "(current cfg)\<^sup>2 < float_overflow"
    and "0 < resistivity conductor"
    and "(inner_radius conductor)\<^sup>2 < (outer_radius conductor)\<^sup>2"
    and "(outer_radius conductor)\<^sup>2 < float_overflow"
  shows "next_candidate cfg T = Inr (spec_step cfg conductor T)"
proof -
  from get_electrical_resistance_formula [OF assms(4,5,6)]
  have "get_electrical_resistance conductor 1 T = Inr (spec_conductor_resistance conductor T)"
    by (simp only: spec_conductor_resistance_def)
  from calculate_conductor_losses_value [OF assms(1) this assms(3)]
  show ?thesis
    by (simp only: next_candidate_def spec_step_def
        get_total_thermal_resistance_sum [OF assms(2)] sum.case)
qed

lemma temperature_loop_step:
  assumes "next_candidate cfg T = Inr T_new"
  shows "\<exists>l' r'. get_total_thermal_resistance cfg = Inr r' \<and>
     temperature_loop cfg (i # is) (T, l, r, it) =
       (if \<bar>T_new - T\<bar> < 0.1 then Inr (T, l', r', i)
        else temperature_loop cfg is (T_new, l', r', i))"
  using assms
  by (auto simp: next_candidate_def Let_def split: sum.splits)

lemma temperature_loop_spec:
  assumes "\<forall>T. next_candidate cfg T = Inr (step T)"
  shows "\<exists>l' r'. get_total_thermal_resistance cfg = Inr r' \<and>
     temperature_loop cfg [a..<a + Suc n] (T, l, r, it) =
       Inr (fst (spec_fixed_point step (Suc n) T), l', r',
            a + snd (spec_fixed_point step (Suc n) T) - 1)"
proof (induction n arbitrary: a T l r it)
  case 0
  have one: "[a..<a + Suc 0] = [a]" by (simp add: upt_rec)
  from assms have "next_candidate cfg T = Inr (step T)" by simp
  from temperature_loop_step [OF this, of a "[]" l r it] show ?case
    unfolding one by (auto simp: Let_def)
next
  case (Suc n)
  have ab: "[a..<a + Suc (Suc n)] = a # [Suc a..<Suc a + Suc n]"
    by (simp add: upt_rec)
  from assms have "next_candidate cfg T = Inr (step T)" by simp
  from temperature_loop_step [OF this, of a "[Suc a..<Suc a + Suc n]" l r it]
  obtain l' r' where r': "get_total_thermal_resistance cfg = Inr r'"
    and st: "temperature_loop cfg (a # [Suc a..<Suc a + Suc n]) (T, l, r, it) =
       (if \<bar>step T - T\<bar> < 0.1 then Inr (T, l', r', a)
        else temperature_loop cfg [Suc a..<Suc a + Suc n] (step T, l', r', a))"
    by blast
  show ?case
  proof (cases "\<bar>step T - T\<bar> < 0.1")
    case True
    with st r' show ?thesis unfolding ab by (simp add: Let_def)
  next
    case False
    from Suc.IH [of "Suc a" "step T" l' r' a] r' obtain l'' where
      ih: "temperature_loop cfg [Suc a..<Suc a + Suc n] (step T, l', r', a) =
         Inr (fst (spec_fixed_point step (Suc n) (step T)), l'', r',
           Suc a + snd (spec_fixed_point step (Suc n) (step T)) - 1)"
      by auto
    have unf: "spec_fixed_point step (Suc (Suc n)) T =
      (case spec_fixed_point step (Suc n) (step T) of (T', k) \<Rightarrow> (T', Suc k))"
      using False by (subst spec_fixed_point.simps) (simp add: Let_def)
    show ?thesis
      unfolding ab unf using False ih st r'
      by (simp add: split: prod.splits del: spec_fixed_point.simps temperature_loop.simps(2))
  qed
qed

lemma spec_fixed_point_passes:
  "1 \<le> snd (spec_fixed_point step (Suc n) T) \<and> snd (spec_fixed_point step (Suc n) T) \<le> Suc n"
proof (induction n arbitrary: T)
  case 0
  show ?case by (simp add: Let_def)
next
  case (Suc n)
  obtain T' k where eq: "spec_fixed_point step (Suc n) (step T) = (T', k)" by force
  with Suc [of "step T"] have "1 \<le> k \<and> k \<le> Suc n" by simp
  then show ?case
    by (subst (1 2) spec_fixed_point.simps)
       (simp add: Let_def eq del: spec_fixed_point.simps)
qed

lemma spec_fixed_point_exhausted:
  "(\<forall>k<n. \<not> \<bar>(step ^^ Suc k) T - (step ^^ k) T\<bar> < 0.1) \<Longrightarrow>
     spec_fixed_point step n T = ((step ^^ n) T, n)"
proof (induction n arbitrary: T)
  case 0
  show ?case by simp
next
  case (Suc n)
  from Suc.prems have first: "\<not> \<bar>step T - T\<bar> < 0.1" by force
  have "\<forall>k<n. \<not> \<bar>(step ^^ Suc k) (step T) - (step ^^ k) (step T)\<bar> < 0.1"
  proof (intro allI impI)
    fix k assume "k < n"
    then have "Suc k < Suc n" by simp
    with Suc.prems have "\<not> \<bar>(step ^^ Suc (Suc k)) T - (step ^^ Suc k) T\<bar> < 0.1" by blast
    then show "\<not> \<bar>(step ^^ Suc k) (step T) - (step ^^ k) (step T)\<bar> < 0.1"
      by (simp add: funpow_swap1)
  qed
  from Suc.IH [OF this] first show ?case
    by (simp add: Let_def funpow_swap1)
qed

lemma spec_fixed_point_constant:
  "\<not> \<bar>c - T\<bar> < 0.1 \<Longrightarrow> spec_fixed_point (\<lambda>T. c) (Suc (Suc n)) T = (c, 2)"
  by (simp add: Let_def)

lemma calculate_conductor_temperature_spec:
  assumes "\<forall>T. next_candidate cfg T = Inr (step T)"
  shows "\<exists>d. calculate_conductor_temperature cfg =
      Inr (fst (spec_fixed_point step 10 (max_conductor_temp cfg)), d)
    \<and> conductor_temp_C d = fst (spec_fixed_point step 10 (max_conductor_temp cfg))
    \<and> iterations d = snd (spec_fixed_point step 10 (max_conductor_temp cfg))
    \<and> current_A d = current cfg
    \<and> get_total_thermal_resistance cfg = Inr (thermal_resistance_K_m_W d)"
proof -
  let ?sp = "spec_fixed_point step (Suc 9) (max_conductor_temp cfg)"
  have ten: "(10::nat) = Suc 9" by simp
  from temperature_loop_spec [OF assms, of 0 9 "max_conductor_temp cfg" 0 0 0]
  obtain l' r' where "get_total_thermal_resistance cfg = Inr r'"
    "temperature_loop cfg [0..<10] (max_conductor_temp cfg, 0, 0, 0) =
       Inr (fst ?sp, l', r', snd ?sp - 1)"
    by auto
  moreover have "1 \<le> snd ?sp" using spec_fixed_point_passes [of _ 9] by blast
  ultimately show ?thesis
    unfolding ten by (simp add: calculate_conductor_temperature_def del: spec_fixed_point.simps)
qed

text \<open>
  C3. \<open>calculate_conductor_temperature\<close> is the specified fixed-point iteration. Take a
  configuration whose first layer is a conductor of positive resistivity and positive
  cross-section, in which no layer of valid geometry has thermal conductivity zero, and
  in which the squares of the current and of the conductor's outer radius are in the
  range of a float. The solver returns the temperature that the specified state machine
  reaches from \<open>max_conductor_temp\<close> with a budget of 10 passes, the tolerance 0.1 K and
  the step \<open>T_new = ambient_temp + P * R_th\<close>, where \<open>P = current\<^sup>2 * R(T)\<close>,
  \<open>R(T) = resistivity / (pi * (outer_radius\<^sup>2 - inner_radius\<^sup>2)) * (1 + alpha * (T - 20))\<close>
  and \<open>R_th\<close> is the sum of \<open>ln (outer_radius / inner_radius) / (2 * pi * conductivity)\<close>
  over the internal and external layers of valid geometry. The detail \<open>iterations\<close> is
  the number of passes that machine makes, and the detail \<open>thermal_resistance_K_m_W\<close> is
  \<open>R_th\<close>.
\<close>

theorem conductor_temperature_fixed_point:
  assumes "layers cfg = conductor # rest"
    and "0 < resistivity conductor"
    and "(inner_radius conductor)\<^sup>2 < (outer_radius conductor)\<^sup>2"
    and "(outer_radius conductor)\<^sup>2 < float_overflow"
    and "(current cfg)\<^sup>2 < float_overflow"
    and "\<forall>l\<in>set (layers cfg @ external_layers cfg).
      0 < inner_radius l \<and> inner_radius l < outer_radius l \<longrightarrow> thermal_conductivity l \<noteq> 0"
  shows "\<exists>d. calculate_conductor_temperature cfg =
      Inr (fst (spec_fixed_point (spec_step cfg conductor) 10 (max_conductor_temp cfg)), d)
    \<and> iterations d =
        snd (spec_fixed_point (spec_step cfg conductor) 10 (max_conductor_temp cfg))
    \<and> thermal_resistance_K_m_W d = spec_total_thermal_resistance cfg"
proof -
  have "\<forall>T. next_candidate cfg T = Inr (spec_step cfg conductor T)"
    using next_candidate_spec [OF assms(1,6,5,2,3,4)] by blast
  from calculate_conductor_temperature_spec [OF this] obtain d where
    d: "calculate_conductor_temperature cfg =
      Inr (fst (spec_fixed_point (spec_step cfg conductor) 10 (max_conductor_temp cfg)), d)"
    "iterations d =
        snd (spec_fixed_point (spec_step cfg conductor) 10 (max_conductor_temp cfg))"
    "get_total_thermal_resistance cfg = Inr (thermal_resistance_K_m_W d)"
    by blast
  from d(3) get_total_thermal_resistance_sum [OF assms(6)]
  have "thermal_resistance_K_m_W d = spec_total_thermal_resistance cfg" by simp
  with d(1,2) show ?thesis by blast
qed

lemma float_overflow_large: "10 ^ 300 < float_overflow"
  by (simp add: float_overflow_def)

lemma float_overflow_small: "float_overflow \<le> 10 ^ 309"
  by (simp add: float_overflow_def)

lemma square_fits: "\<bar>x\<bar> \<le> 10 ^ 150 \<Longrightarrow> x\<^sup>2 < float_overflow"
proof -
  assume "\<bar>x\<bar> \<le> 10 ^ 150"
  then have "\<bar>x\<bar>\<^sup>2 \<le> (10 ^ 150)\<^sup>2" by (intro power_mono) simp_all
  then have "x\<^sup>2 \<le> 10 ^ 300" by simp
  with float_overflow_large show ?thesis by linarith
qed

lemma insulated_wire_total:
  "spec_total_thermal_resistance insulated_wire =
     ln 2 / (2 * pi * 380) + ln 2 / (2 * pi * 0.286)"
  by (simp add: spec_total_thermal_resistance_def spec_layer_resistance_def insulated_wire_def)

lemma insulated_wire_step:
  "spec_step insulated_wire (hd (layers insulated_wire)) T =
     20 + (10\<^sup>2 * (0.0175 / (pi * 3))) * (ln 2 / (2 * pi * 380) + ln 2 / (2 * pi * 0.286))"
  unfolding spec_step_def insulated_wire_total
  by (simp add: spec_conductor_resistance_def insulated_wire_def)

lemma insulated_wire_rise:
  "(10\<^sup>2 * (0.0175 / (pi * 3))) * (ln 2 / (2 * pi * 380) + ln 2 / (2 * pi * 0.286)) \<le> 1"
proof -
  have p: "2 \<le> pi" by (rule pi_ge_two)
  have l: "ln (2::real) < 1" by (rule ln_2_less_1)
  have l0: "0 \<le> ln (2::real)" by simp
  have a: "10\<^sup>2 * (0.0175 / (pi * 3)) \<le> 1" using p by (simp add: field_simps)
  have a0: "0 \<le> 10\<^sup>2 * (0.0175 / (pi * 3))" by simp
  have "ln 2 / (2 * pi * 380) \<le> 1 / (2 * pi * 380)"
    using l by (intro divide_right_mono) simp_all
  also have "\<dots> \<le> 1 / 10" using p by (simp add: field_simps)
  finally have b1: "ln 2 / (2 * pi * 380) \<le> 1 / 10" .
  have "ln 2 / (2 * pi * 0.286) \<le> 1 / (2 * pi * 0.286)"
    using l by (intro divide_right_mono) simp_all
  also have "\<dots> \<le> 9 / 10" using p by (simp add: field_simps)
  finally have b2: "ln 2 / (2 * pi * 0.286) \<le> 9 / 10" .
  from b1 b2 have b: "ln 2 / (2 * pi * 380) + ln 2 / (2 * pi * 0.286) \<le> 1" by linarith
  have b0: "0 \<le> ln 2 / (2 * pi * 380) + ln 2 / (2 * pi * 0.286)" using l0 by simp
  from mult_mono [OF a b _ b0] show ?thesis by simp
qed

theorem conductor_temperature_fixed_point_witness:
  "\<exists>d. calculate_conductor_temperature insulated_wire =
      Inr (20 + (10\<^sup>2 * (0.0175 / (pi * 3))) *
                (ln 2 / (2 * pi * 380) + ln 2 / (2 * pi * 0.286)), d)
     \<and> iterations d = 2
     \<and> thermal_resistance_K_m_W d = ln 2 / (2 * pi * 380) + ln 2 / (2 * pi * 0.286)"
proof -
  let ?c = "hd (layers insulated_wire)"
  let ?T = "20 + (10\<^sup>2 * (0.0175 / (pi * 3))) *
                (ln 2 / (2 * pi * 380) + ln 2 / (2 * pi * 0.286))"
  have l: "layers insulated_wire = ?c # tl (layers insulated_wire)"
    by (simp add: insulated_wire_def)
  have r: "0 < resistivity ?c" by (simp add: insulated_wire_def)
  have a: "(inner_radius ?c)\<^sup>2 < (outer_radius ?c)\<^sup>2" by (simp add: insulated_wire_def)
  have o: "(outer_radius ?c)\<^sup>2 < float_overflow"
    by (rule square_fits) (simp add: insulated_wire_def)
  have c: "(current insulated_wire)\<^sup>2 < float_overflow"
    by (rule square_fits) (simp add: insulated_wire_def)
  have v: "\<forall>l\<in>set (layers insulated_wire @ external_layers insulated_wire).
      0 < inner_radius l \<and> inner_radius l < outer_radius l \<longrightarrow> thermal_conductivity l \<noteq> 0"
    by (simp add: insulated_wire_def)
  have m: "max_conductor_temp insulated_wire = 90" by (simp add: insulated_wire_def)
  have step: "spec_step insulated_wire ?c = (\<lambda>T. ?T)"
    by (rule ext) (rule insulated_wire_step)
  define rise where "rise = (10\<^sup>2 * (0.0175 / (pi * 3))) *
      (ln 2 / (2 * pi * 380) + ln 2 / (2 * pi * 0.286))"
  have "rise \<le> 1" unfolding rise_def by (rule insulated_wire_rise)
  then have "\<not> \<bar>20 + rise - 90\<bar> < 0.1" by simp
  then have "\<not> \<bar>?T - 90\<bar> < 0.1" unfolding rise_def .
  then have "spec_fixed_point (\<lambda>T. ?T) (Suc (Suc 8)) 90 = (?T, 2)"
    by (rule spec_fixed_point_constant)
  moreover have "Suc (Suc 8) = 10" by simp
  ultimately have sp: "spec_fixed_point (spec_step insulated_wire ?c) 10
      (max_conductor_temp insulated_wire) = (?T, 2)"
    unfolding step m by (simp only:)
  from conductor_temperature_fixed_point [OF l r a o c v] show ?thesis
    unfolding sp insulated_wire_total by (simp only: fst_conv snd_conv)
qed

lemma affine_iteration_diverges:
  fixes step :: "real \<Rightarrow> real"
  assumes "\<And>T. step T = a + b * T" and "1 \<le> b" and "\<not> \<bar>step T0 - T0\<bar> < 0.1"
  shows "\<not> \<bar>(step ^^ Suc n) T0 - (step ^^ n) T0\<bar> < 0.1"
proof (induction n)
  case 0
  from assms(3) show ?case by simp
next
  case (Suc n)
  let ?x = "(step ^^ n) T0"
  have "(step ^^ Suc (Suc n)) T0 - (step ^^ Suc n) T0 = b * (step ?x - ?x)"
    by (simp add: assms(1) algebra_simps)
  then have "\<bar>(step ^^ Suc (Suc n)) T0 - (step ^^ Suc n) T0\<bar> = b * \<bar>step ?x - ?x\<bar>"
    using assms(2) by (simp add: abs_mult)
  moreover have "\<bar>step ?x - ?x\<bar> \<le> b * \<bar>step ?x - ?x\<bar>"
    using assms(2) by (simp add: mult_le_cancel_right1)
  moreover from Suc have "0.1 \<le> \<bar>step ?x - ?x\<bar>" by simp
  ultimately show ?case by linarith
qed

lemma overloaded_cable_total:
  "spec_total_thermal_resistance overloaded_cable = ln 2 / (2 * pi * 0.286)"
  by (simp add: spec_total_thermal_resistance_def spec_layer_resistance_def overloaded_cable_def)

lemma overloaded_cable_step:
  "spec_step overloaded_cable (hd (layers overloaded_cable)) T =
     (20 + 10000\<^sup>2 * (0.0175 / (pi * 4)) * (ln 2 / (2 * pi * 0.286)) * (1 - 0.00393 * 20))
     + (10000\<^sup>2 * (0.0175 / (pi * 4)) * (ln 2 / (2 * pi * 0.286)) * 0.00393) * T"
  unfolding spec_step_def overloaded_cable_total
  by (simp add: spec_conductor_resistance_def overloaded_cable_def) (simp add: field_simps)

lemma overloaded_cable_factor:
  "1000 \<le> 10000\<^sup>2 * (0.0175 / (pi * 4)) * (ln 2 / (2 * pi * 0.286))"
proof -
  have "pi * pi < 4 * 4" using pi_less_4 pi_gt_zero by (intro mult_strict_mono) simp_all
  then have w: "2.288 * (pi * pi) \<le> 36.608" by simp
  have x: "(437500 :: real) \<le> 1750000 * ln 2" using ln_2_ge_quarter by simp
  have "437500 / 36.608 \<le> (1750000 * ln 2) / (2.288 * (pi * pi))"
    by (rule frac_le [OF _ x _ w]) simp_all
  moreover have "(1000 :: real) \<le> 437500 / 36.608" by simp
  moreover have "10000\<^sup>2 * (0.0175 / (pi * 4)) * (ln 2 / (2 * pi * 0.286)) =
      (1750000 * ln 2) / (2.288 * (pi * pi))"
    by (simp add: field_simps)
  ultimately show ?thesis by linarith
qed

lemma overloaded_cable_diverges:
  "\<not> \<bar>(spec_step overloaded_cable (hd (layers overloaded_cable)) ^^ Suc k) 90
       - (spec_step overloaded_cable (hd (layers overloaded_cable)) ^^ k) 90\<bar> < 0.1"
proof (rule affine_iteration_diverges [OF overloaded_cable_step])
  define c where "c = 10000\<^sup>2 * (0.0175 / (pi * 4)) * (ln 2 / (2 * pi * 0.286))"
  have c: "1000 \<le> c" unfolding c_def by (rule overloaded_cable_factor)
  then have "1 \<le> c * 0.00393" by simp
  then show "1 \<le> 10000\<^sup>2 * (0.0175 / (pi * 4)) * (ln 2 / (2 * pi * 0.286)) * 0.00393"
    unfolding c_def .
  have "spec_step overloaded_cable (hd (layers overloaded_cable)) 90 =
      (20 + c * (1 - 0.00393 * 20)) + (c * 0.00393) * 90"
    unfolding c_def by (rule overloaded_cable_step)
  with c
  show "\<not> \<bar>spec_step overloaded_cable (hd (layers overloaded_cable)) 90 - 90\<bar> < 0.1"
    by simp
qed

lemma calculate_conductor_losses_overflow:
  assumes "layers cfg = conductor # rest"
    and "get_electrical_resistance conductor 1 T = Inr v"
    and "float_overflow \<le> (current cfg)\<^sup>2"
  shows "calculate_conductor_losses cfg (Some T) = Inl OverflowError"
  using assms
  by (simp add: calculate_conductor_losses_def get_conductor_layer_def py_pow_square_overflow)

lemma first_pass_raises:
  assumes "calculate_conductor_losses cfg (Some (max_conductor_temp cfg)) = Inl e"
  shows "calculate_conductor_temperature cfg = Inl e"
proof -
  have "[0..<10] = 0 # [1..<10]" by (simp add: upt_conv_Cons)
  with assms show ?thesis by (simp add: calculate_conductor_temperature_def)
qed

text \<open>
  C4 (as stated, refuted). The claim promises a normal return for every configuration
  with a non-empty layer list. A layer of valid geometry with thermal conductivity zero
  makes the first pass raise ZeroDivisionError, and a current of \<open>10 ^ 200\<close> A makes
  \<^verbatim>\<open>self.current**2\<close> raise OverflowError in the first pass.
\<close>

theorem solver_raises:
  "layers zero_conductivity_cable \<noteq> [] \<and>
   calculate_conductor_temperature zero_conductivity_cable = Inl ZeroDivisionError \<and>
   layers (bare_conductor\<lparr>current := 10 ^ 200\<rparr>) \<noteq> [] \<and>
   calculate_conductor_temperature (bare_conductor\<lparr>current := 10 ^ 200\<rparr>) = Inl OverflowError"
proof -
  let ?big = "bare_conductor\<lparr>current := 10 ^ 200\<rparr>"
  have z: "py_pow 0 2 = Inr 0" by (simp add: py_pow_def float_overflow_def)
  have zero: "calculate_conductor_temperature zero_conductivity_cable = Inl ZeroDivisionError"
    by (simp add: zero_conductivity_cable_def calculate_conductor_temperature_def upt_conv_Cons
      calculate_conductor_losses_def get_conductor_layer_def get_electrical_resistance_def
      get_total_thermal_resistance_def get_thermal_resistance_def py_div_def z)
  have l: "layers ?big = hd (layers bare_conductor) # []" by (simp add: bare_conductor_def)
  have "(outer_radius (hd (layers bare_conductor)))\<^sup>2 < float_overflow"
    by (rule square_fits) (simp add: bare_conductor_def)
  moreover have "(inner_radius (hd (layers bare_conductor)))\<^sup>2 < float_overflow"
    by (rule square_fits) (simp add: bare_conductor_def)
  ultimately obtain v where
    v: "get_electrical_resistance (hd (layers bare_conductor)) 1 (max_conductor_temp ?big) = Inr v"
    using get_electrical_resistance_returns [of "hd (layers bare_conductor)"] by blast
  have "(10 ^ 309 :: real) \<le> (10 ^ 200)\<^sup>2" by simp
  with float_overflow_small have "float_overflow \<le> (current ?big)\<^sup>2" by simp
  from first_pass_raises [OF calculate_conductor_losses_overflow [OF l v this]]
  have "calculate_conductor_temperature ?big = Inl OverflowError" .
  with zero show ?thesis
    by (simp add: zero_conductivity_cable_def bare_conductor_def)
qed

text \<open>
  C4 (amended). Take a configuration with a non-empty layer list in which no layer
  (internal or external) of valid geometry has thermal conductivity zero, the square of
  the current is in the range of a float and, unless the conductor's resistivity is not
  positive, so are the squares of the conductor's radii. Every pass of the loop body
  then computes a new candidate, and the solver returns normally with between 1 and 10
  iterations reported, its temperature being the detail \<open>conductor_temp_C\<close>. When none of
  the 10 passes meets the 0.1 K tolerance, no error is raised: the tenth iterate is
  returned and the reported count is 10.
\<close>

theorem solver_returns_on_non_convergence:
  assumes "layers cfg = conductor # rest"
    and "\<forall>l\<in>set (layers cfg @ external_layers cfg).
      0 < inner_radius l \<and> inner_radius l < outer_radius l \<longrightarrow> thermal_conductivity l \<noteq> 0"
    and "(current cfg)\<^sup>2 < float_overflow"
    and "resistivity conductor \<le> 0 \<or>
      (outer_radius conductor)\<^sup>2 < float_overflow \<and> (inner_radius conductor)\<^sup>2 < float_overflow"
  shows "\<exists>step t d. (\<forall>T. next_candidate cfg T = Inr (step T))
    \<and> calculate_conductor_temperature cfg = Inr (t, d)
    \<and> conductor_temp_C d = t \<and> 1 \<le> iterations d \<and> iterations d \<le> 10
    \<and> ((\<forall>k<10. \<not> \<bar>(step ^^ Suc k) (max_conductor_temp cfg)
                     - (step ^^ k) (max_conductor_temp cfg)\<bar> < 0.1) \<longrightarrow>
         t = (step ^^ 10) (max_conductor_temp cfg) \<and> iterations d = 10)"
proof -
  from next_candidate_returns [OF assms] obtain R where
    "\<forall>T. next_candidate cfg T =
      Inr (ambient_temp cfg + ((current cfg)\<^sup>2 * R T) * spec_total_thermal_resistance cfg)"
    ..
  then obtain step where step: "\<forall>T. next_candidate cfg T = Inr (step T)"
    by (rule_tac that [of "\<lambda>T. ambient_temp cfg +
        ((current cfg)\<^sup>2 * R T) * spec_total_thermal_resistance cfg"])
  let ?sp = "spec_fixed_point step 10 (max_conductor_temp cfg)"
  from calculate_conductor_temperature_spec [OF step] obtain d where
    d: "calculate_conductor_temperature cfg = Inr (fst ?sp, d)"
       "conductor_temp_C d = fst ?sp" "iterations d = snd ?sp"
    by blast
  have p: "1 \<le> snd ?sp \<and> snd ?sp \<le> 10"
    using spec_fixed_point_passes [of step 9 "max_conductor_temp cfg"] by simp
  have e: "(\<forall>k<10. \<not> \<bar>(step ^^ Suc k) (max_conductor_temp cfg)
                     - (step ^^ k) (max_conductor_temp cfg)\<bar> < 0.1) \<longrightarrow>
         ?sp = ((step ^^ 10) (max_conductor_temp cfg), 10)"
    using spec_fixed_point_exhausted [of 10 step "max_conductor_temp cfg"] by blast
  show ?thesis
  proof (intro exI conjI)
    show "\<forall>T. next_candidate cfg T = Inr (step T)" by (rule step)
    show "calculate_conductor_temperature cfg = Inr (fst ?sp, d)" by (rule d(1))
    show "conductor_temp_C d = fst ?sp" by (rule d(2))
    from p d(3) show "1 \<le> iterations d" "iterations d \<le> 10" by simp_all
    from e d(3) show "(\<forall>k<10. \<not> \<bar>(step ^^ Suc k) (max_conductor_temp cfg)
                     - (step ^^ k) (max_conductor_temp cfg)\<bar> < 0.1) \<longrightarrow>
         fst ?sp = (step ^^ 10) (max_conductor_temp cfg) \<and> iterations d = 10"
      by (auto simp del: spec_fixed_point.simps)
  qed
qed

theorem solver_returns_on_non_convergence_witness:
  "\<exists>t d. calculate_conductor_temperature overloaded_cable = Inr (t, d)
     \<and> conductor_temp_C d = t \<and> iterations d = 10
     \<and> t = (spec_step overloaded_cable (hd (layers overloaded_cable)) ^^ 10) 90"
proof -
  let ?c = "hd (layers overloaded_cable)"
  have l: "layers overloaded_cable = ?c # tl (layers overloaded_cable)"
    by (simp add: overloaded_cable_def)
  have v: "\<forall>l\<in>set (layers overloaded_cable @ external_layers overloaded_cable).
      0 < inner_radius l \<and> inner_radius l < outer_radius l \<longrightarrow> thermal_conductivity l \<noteq> 0"
    by (simp add: overloaded_cable_def)
  have m: "max_conductor_temp overloaded_cable = 90" by (simp add: overloaded_cable_def)
  have c: "(current overloaded_cable)\<^sup>2 < float_overflow"
    by (rule square_fits) (simp add: overloaded_cable_def)
  have o: "(outer_radius ?c)\<^sup>2 < float_overflow"
    by (rule square_fits) (simp add: overloaded_cable_def)
  have i: "(inner_radius ?c)\<^sup>2 < float_overflow"
    by (rule square_fits) (simp add: overloaded_cable_def)
  have r: "0 < resistivity ?c" and a: "(inner_radius ?c)\<^sup>2 < (outer_radius ?c)\<^sup>2"
    by (simp_all add: overloaded_cable_def)
  from o i have oi: "resistivity ?c \<le> 0 \<or>
      (outer_radius ?c)\<^sup>2 < float_overflow \<and> (inner_radius ?c)\<^sup>2 < float_overflow" by simp
  from solver_returns_on_non_convergence [OF l v c oi] obtain step t d where
    s: "\<forall>T. next_candidate overloaded_cable T = Inr (step T)"
    and t: "calculate_conductor_temperature overloaded_cable = Inr (t, d)"
    and ct: "conductor_temp_C d = t"
    and e: "(\<forall>k<10. \<not> \<bar>(step ^^ Suc k) 90 - (step ^^ k) 90\<bar> < 0.1) \<longrightarrow>
         t = (step ^^ 10) 90 \<and> iterations d = 10"
    unfolding m by blast
  have "step = spec_step overloaded_cable ?c"
  proof
    fix T
    from s have "next_candidate overloaded_cable T = Inr (step T)" by simp
    with next_candidate_spec [OF l v c r a o, of T]
    show "step T = spec_step overloaded_cable ?c T" by simp
  qed
  with e overloaded_cable_diverges have
    "t = (spec_step overloaded_cable ?c ^^ 10) 90 \<and> iterations d = 10" by blast
  with t ct show ?thesis by blast
qed

section \<open>The temperature profile\<close>

lemma get_thermal_resistance_nonneg:
  assumes "0 < inner_radius l" and "inner_radius l < outer_radius l"
    and "0 < thermal_conductivity l"
  shows "\<exists>r. get_thermal_resistance l len = Inr r \<and> 0 \<le> r"
proof -
  from assms have "1 < outer_radius l / inner_radius l" by simp
  then have "0 < ln (outer_radius l / inner_radius l)" by simp
  with assms have "0 \<le> ln (outer_radius l / inner_radius l) / (2 * pi * thermal_conductivity l)"
    by simp
  with assms show ?thesis by (simp add: get_thermal_resistance_valid)
qed

lemma profile_loop_nonincreasing:
  assumes "0 \<le> losses"
  shows "\<forall>l\<in>set ls. 0 < inner_radius l \<and> inner_radius l < outer_radius l \<and>
            0 < thermal_conductivity l \<Longrightarrow>
         sorted_wrt (\<ge>) (map (\<lambda>x. fst (snd x)) p) \<Longrightarrow>
         \<forall>x\<in>set p. ct \<le> fst (snd x) \<Longrightarrow>
         \<exists>q. profile_loop losses ls ct p = Inr q \<and> length q = length p + 2 * length ls \<and>
           sorted_wrt (\<ge>) (map (\<lambda>x. fst (snd x)) q)"
proof (induction ls arbitrary: ct p)
  case Nil
  then show ?case by simp
next
  case (Cons l ls)
  from Cons.prems(1) obtain r where r: "get_thermal_resistance l 1 = Inr r" "0 \<le> r"
    using get_thermal_resistance_nonneg [of l 1] by auto
  let ?ct = "ct - losses * r"
  let ?p = "(p @ [(inner_radius l, ct, name l)]) @ [(outer_radius l, ?ct, name l)]"
  from assms r have le: "?ct \<le> ct" by simp
  have s: "sorted_wrt (\<ge>) (map (\<lambda>x. fst (snd x)) ?p)"
    using Cons.prems(2,3) le by (auto simp: sorted_wrt_append)
  have b: "\<forall>x\<in>set ?p. ?ct \<le> fst (snd x)"
    using Cons.prems(3) le by auto
  from Cons.IH [OF _ s b] Cons.prems(1) obtain q where
    "profile_loop losses ls ?ct ?p = Inr q" "length q = length ?p + 2 * length ls"
    "sorted_wrt (\<ge>) (map (\<lambda>x. fst (snd x)) q)" by auto
  with r show ?case by (simp add: Let_def)
qed

text \<open>
  C6. For a layer stack in which every layer has \<open>0 < inner_radius < outer_radius\<close> and
  a positive thermal conductivity, and non-negative conductor losses at the solved
  temperature, the boundary temperatures of \<open>calculate_temperature_profile\<close> never
  increase from one entry of the profile to the next. Such a profile is produced (two
  entries per layer) whenever the layer list is non-empty, no external layer raises and
  the squares of the current and of the conductor's outer radius are in the range of a
  float.
\<close>

theorem temperature_profile_nonincreasing:
  assumes valid: "\<forall>l\<in>set (layers cfg). 0 < inner_radius l \<and> inner_radius l < outer_radius l \<and>
            0 < thermal_conductivity l"
    and losses: "\<forall>t d p. calculate_conductor_temperature cfg = Inr (t, d) \<longrightarrow>
            calculate_conductor_losses cfg (Some t) = Inr p \<longrightarrow> 0 \<le> p"
  shows "(\<forall>profile. calculate_temperature_profile cfg = Inr profile \<longrightarrow>
            (\<forall>i. Suc i < length profile \<longrightarrow>
               fst (snd (profile ! Suc i)) \<le> fst (snd (profile ! i))))
       \<and> (layers cfg \<noteq> [] \<and> (\<forall>l\<in>set (external_layers cfg).
              0 < inner_radius l \<and> inner_radius l < outer_radius l \<longrightarrow>
              thermal_conductivity l \<noteq> 0) \<and>
            (current cfg)\<^sup>2 < float_overflow \<and>
            (outer_radius (hd (layers cfg)))\<^sup>2 < float_overflow \<longrightarrow>
          (\<exists>profile. calculate_temperature_profile cfg = Inr profile \<and>
              length profile = 2 * length (layers cfg)))"
proof (intro conjI allI impI)
  fix profile i
  assume pr: "calculate_temperature_profile cfg = Inr profile" and i: "Suc i < length profile"
  from pr obtain t d p where t: "calculate_conductor_temperature cfg = Inr (t, d)"
    and p: "calculate_conductor_losses cfg (Some t) = Inr p"
    and loop: "profile_loop p (layers cfg) t [] = Inr profile"
    by (auto simp: calculate_temperature_profile_def split: sum.splits)
  from losses t p have "0 \<le> p" by blast
  from profile_loop_nonincreasing [OF this valid, of "[]" t] loop
  have "sorted_wrt (\<ge>) (map (\<lambda>x. fst (snd x)) profile)" by simp
  from sorted_wrt_nth_less [OF this, of i "Suc i"] i
  show "fst (snd (profile ! Suc i)) \<le> fst (snd (profile ! i))" by simp
next
  assume a: "layers cfg \<noteq> [] \<and> (\<forall>l\<in>set (external_layers cfg).
              0 < inner_radius l \<and> inner_radius l < outer_radius l \<longrightarrow>
              thermal_conductivity l \<noteq> 0) \<and>
            (current cfg)\<^sup>2 < float_overflow \<and>
            (outer_radius (hd (layers cfg)))\<^sup>2 < float_overflow"
  then obtain conductor rest where c: "layers cfg = conductor # rest"
    by (cases "layers cfg") auto
  from a valid have noz: "\<forall>l\<in>set (layers cfg @ external_layers cfg).
      0 < inner_radius l \<and> inner_radius l < outer_radius l \<longrightarrow> thermal_conductivity l \<noteq> 0"
    by auto
  from a have cur: "(current cfg)\<^sup>2 < float_overflow" by simp
  from a c have o: "(outer_radius conductor)\<^sup>2 < float_overflow" by simp
  from valid c have "0 < inner_radius conductor" "inner_radius conductor < outer_radius conductor"
    by simp_all
  then have "(inner_radius conductor)\<^sup>2 < (outer_radius conductor)\<^sup>2"
    by (intro power_strict_mono) simp_all
  with o have oi: "resistivity conductor \<le> 0 \<or>
      (outer_radius conductor)\<^sup>2 < float_overflow \<and> (inner_radius conductor)\<^sup>2 < float_overflow"
    by simp
  from next_candidate_returns [OF c noz cur oi] obtain R where
    step: "\<forall>T. next_candidate cfg T =
      Inr (ambient_temp cfg + ((current cfg)\<^sup>2 * R T) * spec_total_thermal_resistance cfg)"
    ..
  from calculate_conductor_temperature_spec [OF step] obtain t d where
    t: "calculate_conductor_temperature cfg = Inr (t, d)" by blast
  from step have "\<exists>x. next_candidate cfg t = Inr x" by simp
  then obtain p where p: "calculate_conductor_losses cfg (Some t) = Inr p"
    by (auto simp: next_candidate_def split: sum.splits)
  with losses t have "0 \<le> p" by blast
  from profile_loop_nonincreasing [OF this valid, of "[]" t]
  obtain q where "profile_loop p (layers cfg) t [] = Inr q"
    "length q = 2 * length (layers cfg)" by auto
  with t p show "\<exists>profile. calculate_temperature_profile cfg = Inr profile \<and>
              length profile = 2 * length (layers cfg)"
    by (simp add: calculate_temperature_profile_def)
qed

lemma insulated_wire_losses:
  "calculate_conductor_losses insulated_wire (Some t) = Inr p \<Longrightarrow> 0 \<le> p"
proof -
  let ?c = "hd (layers insulated_wire)"
  assume p: "calculate_conductor_losses insulated_wire (Some t) = Inr p"
  have l: "layers insulated_wire = ?c # tl (layers insulated_wire)"
    by (simp add: insulated_wire_def)
  have r: "0 < resistivity ?c" by (simp add: insulated_wire_def)
  have a: "(inner_radius ?c)\<^sup>2 < (outer_radius ?c)\<^sup>2" by (simp add: insulated_wire_def)
  have o: "(outer_radius ?c)\<^sup>2 < float_overflow"
    by (rule square_fits) (simp add: insulated_wire_def)
  have c: "(current insulated_wire)\<^sup>2 < float_overflow"
    by (rule square_fits) (simp add: insulated_wire_def)
  from calculate_conductor_losses_value [OF l get_electrical_resistance_formula [OF r a o] c, of t] p
  show "0 \<le> p" by (auto simp: insulated_wire_def)
qed

theorem temperature_profile_nonincreasing_witness:
  "\<exists>profile. calculate_temperature_profile insulated_wire = Inr profile \<and>
      length profile = 4 \<and>
      fst (snd (profile ! 1)) \<le> fst (snd (profile ! 0)) \<and>
      fst (snd (profile ! 2)) \<le> fst (snd (profile ! 1)) \<and>
      fst (snd (profile ! 3)) \<le> fst (snd (profile ! 2))"
proof -
  have v: "\<forall>l\<in>set (layers insulated_wire). 0 < inner_radius l \<and>
      inner_radius l < outer_radius l \<and> 0 < thermal_conductivity l"
    by (simp add: insulated_wire_def)
  have l: "\<forall>t d p. calculate_conductor_temperature insulated_wire = Inr (t, d) \<longrightarrow>
            calculate_conductor_losses insulated_wire (Some t) = Inr p \<longrightarrow> 0 \<le> p"
    using insulated_wire_losses by blast
  have "(current insulated_wire)\<^sup>2 < float_overflow"
    by (rule square_fits) (simp add: insulated_wire_def)
  moreover have "(outer_radius (hd (layers insulated_wire)))\<^sup>2 < float_overflow"
    by (rule square_fits) (simp add: insulated_wire_def)
  ultimately have e: "layers insulated_wire \<noteq> [] \<and> (\<forall>l\<in>set (external_layers insulated_wire).
              0 < inner_radius l \<and> inner_radius l < outer_radius l \<longrightarrow>
              thermal_conductivity l \<noteq> 0) \<and>
            (current insulated_wire)\<^sup>2 < float_overflow \<and>
            (outer_radius (hd (layers insulated_wire)))\<^sup>2 < float_overflow"
    by (simp add: insulated_wire_def)
  have len: "length (layers insulated_wire) = 2" by (simp add: insulated_wire_def)
  from temperature_profile_nonincreasing [OF v l] e len
  obtain profile where p: "calculate_temperature_profile insulated_wire = Inr profile"
    "length profile = 4" by auto
  from temperature_profile_nonincreasing [OF v l] p
  have "\<forall>i. Suc i < 4 \<longrightarrow> fst (snd (profile ! Suc i)) \<le> fst (snd (profile ! i))"
    by auto
  from this [rule_format, of 0] this [rule_format, of 1] this [rule_format, of 2] p
  show ?thesis by (simp add: numeral_2_eq_2 numeral_3_eq_3)
qed

section \<open>Mutual heating\<close>

lemma calculate_mutual_thermal_resistance_pos:
  assumes "0 < distance" and "0 < depth"
  shows "calculate_mutual_thermal_resistance distance depth soil_resistivity =
    Inr (max 0 ((soil_resistivity / (2 * pi)) * ln (2 * depth / distance)))"
proof -
  from assms have "0 < 2 * depth / distance" by simp
  then have q: "\<not> 2 * depth / distance \<le> 0" by (simp only: not_le)
  from assms show ?thesis
    by (simp add: calculate_mutual_thermal_resistance_def py_div_def math_log_def q Let_def)
qed

text \<open>
  C8 (as stated, refuted). For the distance 4 m, the depth 1 m and the soil resistivity
  1 K m/W the formula \<open>(soil_resistivity / (2 * pi)) * ln (2 * depth / distance)\<close> is
  negative, and the method returns \<open>0\<close>: its last statement is \<^verbatim>\<open>return max(0, R_mutual)\<close>.
\<close>

theorem mutual_resistance_clamped_at_zero:
  "calculate_mutual_thermal_resistance 4 1 1 = Inr 0 \<and> (1 / (2 * pi)) * ln (2 * 1 / 4) < 0"
proof -
  have "ln (1 / 2 :: real) < 0" by (simp add: ln_div)
  then have neg: "ln (1 / 2 :: real) / (2 * pi) < 0" by (simp add: divide_neg_pos)
  then have "max 0 (ln (1 / 2 :: real) / (2 * pi)) = 0" by (simp add: max_def)
  then have "calculate_mutual_thermal_resistance 4 1 1 = Inr 0"
    by (simp add: calculate_mutual_thermal_resistance_pos)
  with neg show ?thesis by simp
qed

text \<open>
  C8 (amended). For every distance and depth above zero the method returns the larger
  of zero and \<open>(soil_resistivity / (2 * pi)) * ln (2 * depth / distance)\<close>; it returns the
  formula itself whenever the soil resistivity is not negative and the distance is at
  most twice the depth.
\<close>

theorem mutual_resistance_formula:
  "0 < distance \<and> 0 < depth \<longrightarrow>
     calculate_mutual_thermal_resistance distance depth soil_resistivity =
       Inr (max 0 ((soil_resistivity / (2 * pi)) * ln (2 * depth / distance)))
   \<and> (0 \<le> soil_resistivity \<and> distance \<le> 2 * depth \<longrightarrow>
       calculate_mutual_thermal_resistance distance depth soil_resistivity =
         Inr ((soil_resistivity / (2 * pi)) * ln (2 * depth / distance)))"
proof (intro impI conjI)
  assume a: "0 < distance \<and> 0 < depth"
  then show "calculate_mutual_thermal_resistance distance depth soil_resistivity =
       Inr (max 0 ((soil_resistivity / (2 * pi)) * ln (2 * depth / distance)))"
    by (simp add: calculate_mutual_thermal_resistance_pos)
  assume b: "0 \<le> soil_resistivity \<and> distance \<le> 2 * depth"
  with a have "1 \<le> 2 * depth / distance" by simp
  then have "0 \<le> ln (2 * depth / distance)" by simp
  with b have "0 \<le> (soil_resistivity / (2 * pi)) * ln (2 * depth / distance)" by simp
  with a show "calculate_mutual_thermal_resistance distance depth soil_resistivity =
         Inr ((soil_resistivity / (2 * pi)) * ln (2 * depth / distance))"
    by (simp add: calculate_mutual_thermal_resistance_pos max_def)
qed

theorem mutual_resistance_formula_witness:
  "calculate_mutual_thermal_resistance 1 1 1 = Inr (ln 2 / (2 * pi))"
  using mutual_resistance_formula [of 1 1 1] by simp

section \<open>The U-value of a layered wall\<close>

lemma u_value_loop_sum:
  "\<forall>(m, d)\<in>set lays. \<exists>l. get_lambda db m = Some l \<and> l \<noteq> 0 \<Longrightarrow>
   \<exists>ds. u_value_loop db lays R_total ds0 =
     Inr (R_total + (\<Sum>(m, d)\<leftarrow>lays. d / the (get_lambda db m)), ds)"
proof (induction lays arbitrary: R_total ds0)
  case Nil
  show ?case by simp
next
  case (Cons x lays)
  obtain m d where x: "x = (m, d)" by (cases x)
  with Cons.prems obtain l where l: "get_lambda db m = Some l" "l \<noteq> 0" by auto
  from Cons.prems have "\<forall>(m, d)\<in>set lays. \<exists>l. get_lambda db m = Some l \<and> l \<noteq> 0" by simp
  from Cons.IH [OF this, of "R_total + d / l"] x l show ?case
    by (simp add: py_div_def add.assoc)
qed

lemma sum_nonneg_layers:
  "\<forall>(m, d)\<in>set lays. 0 \<le> d \<and> (\<exists>l. get_lambda db m = Some l \<and> 0 < l) \<Longrightarrow>
     0 \<le> (\<Sum>(m, d)\<leftarrow>lays. d / the (get_lambda db m))"
  by (induction lays) auto

lemma get_lambda_beton: "get_lambda MATERIALS ''Beton (Normal)'' = Some 2.1"
  by (simp add: get_lambda_def get_material_def MATERIALS_def)

lemma get_lambda_eps: "get_lambda MATERIALS ''Polystyrol (EPS)'' = Some 0.035"
  by (simp add: get_lambda_def get_material_def MATERIALS_def)

text \<open>
  C9 (as stated, refuted). For concrete 0.20 m and EPS 0.12 m the function returns
  \<open>R_total = 7757 / 2100\<close>, above 3.69, and \<open>U = 2100 / 7757\<close>, below 0.271: not the
  3.66 and 0.273 of the claim. And a list whose materials are all in the database with a
  positive conductivity does not always get \<open>u_value = 1 / total_resistance\<close>: the
  thickness is not validated, and for a total resistance that is not positive the guard
  of the last assignment yields \<open>float('inf')\<close>.
\<close>

theorem u_value_reference_values:
  "calculate_u_value MATERIALS [(''Beton (Normal)'', 0.20), (''Polystyrol (EPS)'', 0.12)] =
     Inr \<lparr>u_value_W_m2K = Finite (2100 / 7757), total_resistance_m2K_W = 7757 / 2100,
          R_si = 0.13, R_se = 0.04,
          layers_detail =
            [\<lparr>ld_material = ''Beton (Normal)'', thickness_m = 0.20,
               lambda_W_mK = 2.1, resistance_m2K_W = 2 / 21\<rparr>,
             \<lparr>ld_material = ''Polystyrol (EPS)'', thickness_m = 0.12,
               lambda_W_mK = 0.035, resistance_m2K_W = 24 / 7\<rparr>]\<rparr>
   \<and> (3.69 :: real) < 7757 / 2100 \<and> (2100 / 7757 :: real) < 0.271
   \<and> calculate_u_value MATERIALS [(''Polystyrol (EPS)'', - 0.12)] =
     Inr \<lparr>u_value_W_m2K = Infinity, total_resistance_m2K_W = - (2281 / 700),
          R_si = 0.13, R_se = 0.04,
          layers_detail =
            [\<lparr>ld_material = ''Polystyrol (EPS)'', thickness_m = - 0.12,
               lambda_W_mK = 0.035, resistance_m2K_W = - (24 / 7)\<rparr>]\<rparr>"
  by (simp add: calculate_u_value_def get_lambda_def get_material_def MATERIALS_def py_div_def)

text \<open>
  C9 (amended). For every non-empty list of layers whose materials are in the database
  with a positive conductivity, \<open>calculate_u_value\<close> returns
  \<open>total_resistance = 0.13 + (sum of thickness / lambda) + 0.04\<close>; the U-value is
  \<open>1 / total_resistance\<close> when the total resistance is positive, which it is whenever no
  thickness is negative, and infinity otherwise. For concrete 0.20 m plus EPS 0.12 m
  this gives \<open>R_total = 7757 / 2100\<close> (about 3.694) and \<open>U = 2100 / 7757\<close> (about 0.2707).
\<close>

theorem u_value_series_resistance:
  assumes "lays \<noteq> []"
    and "\<forall>(m, d)\<in>set lays. \<exists>l. get_lambda db m = Some l \<and> 0 < l"
  shows "\<exists>res. calculate_u_value db lays = Inr res
     \<and> total_resistance_m2K_W res =
         0.13 + (\<Sum>(m, d)\<leftarrow>lays. d / the (get_lambda db m)) + 0.04
     \<and> (0 < total_resistance_m2K_W res \<longrightarrow>
           u_value_W_m2K res = Finite (1 / total_resistance_m2K_W res))
     \<and> (total_resistance_m2K_W res \<le> 0 \<longrightarrow> u_value_W_m2K res = Infinity)
     \<and> ((\<forall>(m, d)\<in>set lays. 0 \<le> d) \<longrightarrow>
           u_value_W_m2K res = Finite (1 / total_resistance_m2K_W res))"
proof -
  let ?S = "\<Sum>(m, d)\<leftarrow>lays. d / the (get_lambda db m)"
  from assms(2) have "\<forall>(m, d)\<in>set lays. \<exists>l. get_lambda db m = Some l \<and> l \<noteq> 0"
    by fastforce
  from u_value_loop_sum [OF this, of "0.13 + 0.04" "[]"] obtain ds where
    loop: "u_value_loop db lays (0.13 + 0.04) [] = Inr (0.13 + 0.04 + ?S, ds)" by blast
  have pos: "(\<forall>(m, d)\<in>set lays. 0 \<le> d) \<longrightarrow> 0 < 0.13 + 0.04 + ?S"
  proof
    assume "\<forall>(m, d)\<in>set lays. 0 \<le> d"
    with assms(2) have "\<forall>(m, d)\<in>set lays. 0 \<le> d \<and> (\<exists>l. get_lambda db m = Some l \<and> 0 < l)"
      by fastforce
    from sum_nonneg_layers [OF this] show "0 < 0.13 + 0.04 + ?S" by simp
  qed
  from assms(1) loop pos show ?thesis
    by (auto simp: calculate_u_value_def Let_def)
qed

theorem u_value_series_resistance_witness:
  "(\<exists>res. calculate_u_value MATERIALS
       [(''Beton (Normal)'', 0.20), (''Polystyrol (EPS)'', 0.12)] = Inr res
     \<and> total_resistance_m2K_W res = 7757 / 2100
     \<and> u_value_W_m2K res = Finite (2100 / 7757))
   \<and> (\<exists>res. calculate_u_value MATERIALS [(''Polystyrol (EPS)'', - 0.12)] = Inr res
     \<and> total_resistance_m2K_W res = - (2281 / 700)
     \<and> u_value_W_m2K res = Infinity)"
proof
  let ?lays = "[(''Beton (Normal)'', 0.20 :: real), (''Polystyrol (EPS)'', 0.12)]"
  have ne: "?lays \<noteq> []" by simp
  have beton: "\<exists>l. get_lambda MATERIALS ''Beton (Normal)'' = Some l \<and> 0 < l"
    unfolding get_lambda_beton by (rule exI [of _ "2.1"]) simp
  have eps: "\<exists>l. get_lambda MATERIALS ''Polystyrol (EPS)'' = Some l \<and> 0 < l"
    unfolding get_lambda_eps by (rule exI [of _ "0.035"]) simp
  from beton eps have
    db: "\<forall>(m, d)\<in>set ?lays. \<exists>l. get_lambda MATERIALS m = Some l \<and> 0 < l"
    by simp
  from u_value_series_resistance [OF ne db] obtain res where
    res: "calculate_u_value MATERIALS ?lays = Inr res"
      "total_resistance_m2K_W res =
         0.13 + (\<Sum>(m, d)\<leftarrow>?lays. d / the (get_lambda MATERIALS m)) + 0.04"
      "0 < total_resistance_m2K_W res \<longrightarrow>
           u_value_W_m2K res = Finite (1 / total_resistance_m2K_W res)"
    by blast
  from res(2) have t: "total_resistance_m2K_W res = 7757 / 2100"
    by (simp add: get_lambda_beton get_lambda_eps)
  with res(3) have "u_value_W_m2K res = Finite (2100 / 7757)" by simp
  with res(1) t show "\<exists>res. calculate_u_value MATERIALS ?lays = Inr res
     \<and> total_resistance_m2K_W res = 7757 / 2100
     \<and> u_value_W_m2K res = Finite (2100 / 7757)" by blast
  let ?neg = "[(''Polystyrol (EPS)'', - 0.12 :: real)]"
  have ne': "?neg \<noteq> []" by simp
  from eps have db': "\<forall>(m, d)\<in>set ?neg. \<exists>l. get_lambda MATERIALS m = Some l \<and> 0 < l"
    by simp
  from u_value_series_resistance [OF ne' db'] obtain res' where
    res': "calculate_u_value MATERIALS ?neg = Inr res'"
      "total_resistance_m2K_W res' =
         0.13 + (\<Sum>(m, d)\<leftarrow>?neg. d / the (get_lambda MATERIALS m)) + 0.04"
      "total_resistance_m2K_W res' \<le> 0 \<longrightarrow> u_value_W_m2K res' = Infinity"
    by blast
  from res'(2) have t': "total_resistance_m2K_W res' = - (2281 / 700)"
    by (simp add: get_lambda_eps)
  with res'(3) have "u_value_W_m2K res' = Infinity" by simp
  with res'(1) t' show "\<exists>res. calculate_u_value MATERIALS ?neg = Inr res
     \<and> total_resistance_m2K_W res = - (2281 / 700)
     \<and> u_value_W_m2K res = Infinity" by blast
qed

section \<open>The conductor's electrical resistance\<close>

lemma base_solver_resistance:
  assumes "layers cfg = conductor # rest" and "0 < resistivity conductor"
    and "(inner_radius conductor)\<^sup>2 < (outer_radius conductor)\<^sup>2"
    and "(outer_radius conductor)\<^sup>2 < float_overflow"
    and "(current cfg)\<^sup>2 < float_overflow"
  shows "calculate_conductor_losses cfg (Some T) =
    Inr ((current cfg)\<^sup>2 *
      ((resistivity conductor * 1 /
          (pi * ((outer_radius conductor)\<^sup>2 - (inner_radius conductor)\<^sup>2))) *
        (1 + temp_coefficient conductor * (T - 20))))"
  by (rule calculate_conductor_losses_value
      [OF assms(1) get_electrical_resistance_formula [OF assms(2,3,4)] assms(5)])

text \<open>
  C7 (the code departs from the claim). The base solver evaluates the resistance at the
  candidate temperature, as \<open>base_solver_resistance\<close> shows. The enhanced solver calls
  \<open>get_electrical_resistance(temperature)\<close> with one positional argument, which is the
  length: for the cable of \<open>create_enhanced_mv_cable_in_air\<close> and the first candidate
  75 degC the resistance is \<open>R_20 * 75\<close> (a conductor 75 m long at 20 degC) and not
  \<open>R_20 * (1 + 0.00393 * 55)\<close>, which the base path returns for the same cable.
\<close>

theorem enhanced_losses_take_temperature_as_length:
  "enhanced_losses_dc enhanced_mv_cable_in_air 400 75 =
     Inr (0.01724 * 75 / (pi * 9.79\<^sup>2), 400\<^sup>2 * (0.01724 * 75 / (pi * 9.79\<^sup>2)))
   \<and> 0.01724 * 75 / (pi * 9.79\<^sup>2) \<noteq>
       (0.01724 * 1 / (pi * 9.79\<^sup>2)) * (1 + 0.00393 * (75 - 20))
   \<and> calculate_conductor_losses enhanced_mv_cable_in_air (Some 75) =
       Inr (400\<^sup>2 * ((0.01724 * 1 / (pi * 9.79\<^sup>2)) * (1 + 0.00393 * (75 - 20))))"
proof (intro conjI)
  let ?c = "hd (layers enhanced_mv_cable_in_air)"
  have a: "(inner_radius ?c)\<^sup>2 < (outer_radius ?c)\<^sup>2"
    by (simp add: enhanced_mv_cable_in_air_def)
  have o: "(outer_radius ?c)\<^sup>2 < float_overflow"
    by (rule square_fits) (simp add: enhanced_mv_cable_in_air_def)
  have c: "(current enhanced_mv_cable_in_air)\<^sup>2 < float_overflow"
    by (rule square_fits) (simp add: enhanced_mv_cable_in_air_def)
  have "(400 :: real)\<^sup>2 < float_overflow" by (rule square_fits) simp
  then have sq: "py_pow 400 2 = Inr (400\<^sup>2)" by (rule py_pow_square)
  have r: "0 < resistivity ?c" by (simp add: enhanced_mv_cable_in_air_def)
  have l: "layers enhanced_mv_cable_in_air = ?c # tl (layers enhanced_mv_cable_in_air)"
    by (simp add: enhanced_mv_cable_in_air_def)
  have "get_electrical_resistance ?c 75 20 = Inr (0.01724 * 75 / (pi * 9.79\<^sup>2))"
    by (subst get_electrical_resistance_formula [OF r a o])
       (simp add: enhanced_mv_cable_in_air_def)
  then show "enhanced_losses_dc enhanced_mv_cable_in_air 400 75 =
     Inr (0.01724 * 75 / (pi * 9.79\<^sup>2), 400\<^sup>2 * (0.01724 * 75 / (pi * 9.79\<^sup>2)))"
    by (subst enhanced_losses_dc_def, subst l) (simp add: Let_def sq)
  show "0.01724 * 75 / (pi * 9.79\<^sup>2) \<noteq>
       (0.01724 * 1 / (pi * 9.79\<^sup>2)) * (1 + 0.00393 * (75 - 20))"
    by (simp add: field_simps)
  show "calculate_conductor_losses enhanced_mv_cable_in_air (Some 75) =
       Inr (400\<^sup>2 * ((0.01724 * 1 / (pi * 9.79\<^sup>2)) * (1 + 0.00393 * (75 - 20))))"
    by (subst base_solver_resistance [OF l r a o c]) (simp add: enhanced_mv_cable_in_air_def)
qed

section \<open>The ampacity search\<close>

lemma max_current_loop_frame:
  "max_current_loop n lo hi cfg = (res, cfg') \<Longrightarrow> lo < hi \<Longrightarrow>
     cfg' = cfg\<lparr>current := current cfg'\<rparr> \<and>
     (n = 0 \<and> cfg' = cfg \<or> lo < current cfg' \<and> current cfg' < hi)"
proof (induction n arbitrary: lo hi cfg)
  case 0
  then show ?case by simp
next
  case (Suc n)
  let ?mid = "(lo + hi) / 2"
  let ?cfg = "cfg\<lparr>current := ?mid\<rparr>"
  from Suc.prems(2) have mid: "lo < ?mid" "?mid < hi" by simp_all
  show ?case
  proof (cases "calculate_conductor_temperature ?cfg")
    case (Inl e)
    with Suc.prems mid show ?thesis
      by (auto simp: run_conductor_temperature_def Let_def)
  next
    case (Inr td)
    obtain t d where td: "td = (t, d)" by (cases td)
    show ?thesis
    proof (cases "\<bar>t - max_conductor_temp cfg\<bar> < 0.5")
      case True
      with Suc.prems Inr td mid show ?thesis
        by (auto simp: run_conductor_temperature_def Let_def)
    next
      case False
      show ?thesis
      proof (cases "t > max_conductor_temp cfg")
        case True
        with Suc.prems(1) Inr td False have
          "max_current_loop n lo ?mid ?cfg = (res, cfg')"
          by (simp add: run_conductor_temperature_def Let_def)
        from Suc.IH [OF this mid(1)] mid show ?thesis by auto
      next
        case hot: False
        with Suc.prems(1) Inr td False have
          "max_current_loop n ?mid hi ?cfg = (res, cfg')"
          by (simp add: run_conductor_temperature_def Let_def)
        from Suc.IH [OF this mid(2)] mid show ?thesis by auto
      qed
    qed
  qed
qed

lemma solved_temperature_current [simp]:
  "solved_temperature (cfg\<lparr>current := x\<rparr>) i = solved_temperature cfg i"
  by (simp add: solved_temperature_def)

lemma get_total_thermal_resistance_current [simp]:
  "get_total_thermal_resistance (cfg\<lparr>current := x\<rparr>) = get_total_thermal_resistance cfg"
  by (simp add: get_total_thermal_resistance_def split: sum.splits)


lemma get_electrical_resistance_independent:
  "get_electrical_resistance l len T = Inr v \<Longrightarrow>
     \<exists>v'. get_electrical_resistance l len' T' = Inr v'"
  by (auto simp: get_electrical_resistance_def Let_def split: sum.splits if_splits)

lemma next_candidate_independent:
  assumes "next_candidate (cfg\<lparr>current := i\<rparr>) T = Inr x" and "j\<^sup>2 < float_overflow"
  shows "\<exists>y. next_candidate (cfg\<lparr>current := j\<rparr>) T' = Inr y"
proof -
  from assms(1) obtain conductor rest v r where
    c: "layers cfg = conductor # rest"
    and v: "get_electrical_resistance conductor 1 T = Inr v"
    and r: "get_total_thermal_resistance (cfg\<lparr>current := i\<rparr>) = Inr r"
    by (cases "layers cfg")
       (auto simp: next_candidate_def calculate_conductor_losses_def get_conductor_layer_def
          split: sum.splits)
  from get_electrical_resistance_independent [OF v] obtain v' where
    v': "get_electrical_resistance conductor 1 T' = Inr v'" by blast
  from r have r': "get_total_thermal_resistance (cfg\<lparr>current := j\<rparr>) = Inr r"
    by simp
  from c have c': "layers (cfg\<lparr>current := j\<rparr>) = conductor # rest" by simp
  from assms(2) have "(current (cfg\<lparr>current := j\<rparr>))\<^sup>2 < float_overflow" by simp
  from calculate_conductor_losses_value [OF c' v' this] r' show ?thesis
    by (simp add: next_candidate_def)
qed

lemma first_pass_returns:
  assumes "calculate_conductor_temperature cfg = Inr (t, d)"
  shows "\<exists>x. next_candidate cfg (max_conductor_temp cfg) = Inr x"
proof -
  have "[0..<10] = 0 # [1..<10]" by (simp add: upt_conv_Cons)
  with assms show ?thesis
    by (auto simp: calculate_conductor_temperature_def next_candidate_def split: sum.splits)
qed

lemma solver_returns_in_range:
  assumes "solved_temperature cfg i0 = Inr t0" and "0 \<le> i" and "i \<le> 10000"
  shows "\<exists>step. \<forall>T. next_candidate (cfg\<lparr>current := i\<rparr>) T = Inr (step T)"
proof -
  from assms(1) obtain d where "calculate_conductor_temperature (cfg\<lparr>current := i0\<rparr>) = Inr (t0, d)"
    by (auto simp: solved_temperature_def split: sum.splits)
  from first_pass_returns [OF this] obtain x where
    x: "next_candidate (cfg\<lparr>current := i0\<rparr>) (max_conductor_temp cfg) = Inr x" by auto
  from assms(2,3) have "\<bar>i\<bar> \<le> 10 ^ 150" by simp
  then have "i\<^sup>2 < float_overflow" by (rule square_fits)
  from next_candidate_independent [OF x this]
  have "\<forall>T. \<exists>y. next_candidate (cfg\<lparr>current := i\<rparr>) T = Inr y" by blast
  then show ?thesis by (rule choice)
qed

lemma solved_temperature_returns:
  assumes "solved_temperature cfg i0 = Inr t0" and "0 \<le> i" and "i \<le> 10000"
  shows "\<exists>t. solved_temperature cfg i = Inr t"
proof -
  from solver_returns_in_range [OF assms] obtain step where
    "\<forall>T. next_candidate (cfg\<lparr>current := i\<rparr>) T = Inr (step T)" ..
  from calculate_conductor_temperature_spec [OF this] show ?thesis
    by (auto simp: solved_temperature_def)
qed



lemma calculate_max_current_result:
  assumes "calculate_max_current cfg = (Inr (i, d), cfg')"
  shows "\<exists>t d0. max_current_loop 20 0 10000 cfg = (Inr (), cfg') \<and> current cfg' = i \<and>
    calculate_conductor_temperature cfg' = Inr (t, d0) \<and> d = d0\<lparr>max_current_A := Some i\<rparr>"
proof -
  obtain res cfg1 where loop: "max_current_loop 20 0 10000 cfg = (res, cfg1)" by force
  show ?thesis
  proof (cases res)
    case (Inl e)
    with assms loop show ?thesis by (simp add: calculate_max_current_def)
  next
    case (Inr u)
    show ?thesis
    proof (cases "calculate_conductor_temperature cfg1")
      case (Inl e)
      with assms loop Inr show ?thesis
        by (simp add: calculate_max_current_def run_conductor_temperature_def)
    next
      case r: (Inr td)
      obtain t d0 where "td = (t, d0)" by (cases td)
      with assms loop Inr r show ?thesis
        by (auto simp: calculate_max_current_def run_conductor_temperature_def)
    qed
  qed
qed









lemma max_current_loop_total:
  assumes "\<forall>i. 0 \<le> i \<and> i \<le> 10000 \<longrightarrow> (\<exists>t. solved_temperature cfg i = Inr t)"
  shows "0 \<le> lo \<Longrightarrow> lo \<le> hi \<Longrightarrow> hi \<le> 10000 \<Longrightarrow>
     \<exists>cfg'. max_current_loop n lo hi (cfg\<lparr>current := x\<rparr>) = (Inr (), cfg')"
proof (induction n arbitrary: lo hi x)
  case 0
  show ?case by simp
next
  case (Suc n)
  let ?mid = "(lo + hi) / 2"
  from Suc.prems have range: "0 \<le> ?mid" "?mid \<le> 10000" "lo \<le> ?mid" "?mid \<le> hi"
    by simp_all
  with assms obtain t where "solved_temperature cfg ?mid = Inr t" by blast
  then obtain d where
    td: "calculate_conductor_temperature (cfg\<lparr>current := ?mid\<rparr>) = Inr (t, d)"
    by (auto simp: solved_temperature_def split: sum.splits)
  from Suc.IH [OF Suc.prems(1) range(3,2), of ?mid] Suc.IH [OF range(1,4) Suc.prems(3), of ?mid]
    td show ?case
    by (subst max_current_loop.simps)
       (auto simp: run_conductor_temperature_def Let_def simp del: max_current_loop.simps)
qed

lemma calculate_max_current_total:
  assumes "solved_temperature cfg i0 = Inr t0"
  shows "\<exists>i d cfg'. calculate_max_current cfg = (Inr (i, d), cfg')"
proof -
  have all: "\<forall>i. 0 \<le> i \<and> i \<le> 10000 \<longrightarrow> (\<exists>t. solved_temperature cfg i = Inr t)"
    using solved_temperature_returns [OF assms] by blast
  from max_current_loop_total [OF all, of 0 10000 20 "current cfg"] obtain cfg1 where
    loop: "max_current_loop 20 0 10000 cfg = (Inr (), cfg1)" by auto
  from max_current_loop_frame [OF loop] have f: "cfg1 = cfg\<lparr>current := current cfg1\<rparr>"
    and r: "0 < current cfg1 \<and> current cfg1 < 10000" by simp_all
  from all r obtain t where "solved_temperature cfg (current cfg1) = Inr t" by force
  then obtain d where
    "calculate_conductor_temperature (cfg\<lparr>current := current cfg1\<rparr>) = Inr (t, d)"
    by (auto simp: solved_temperature_def split: sum.splits)
  with f have "calculate_conductor_temperature cfg1 = Inr (t, d)" by simp
  with loop show ?thesis
    by (simp add: calculate_max_current_def run_conductor_temperature_def)
qed

text \<open>
  C10. \<open>calculate_max_current\<close> leaves its result in the configuration: when it returns
  \<open>(i, details)\<close>, the configuration is the one it was called on with \<open>current\<close> set to
  \<open>i\<close>, a midpoint strictly between 0 and 10000, and every other field as before; the
  pre-call current is not put back, so a configuration that carried another current is
  changed. \<open>calculate_conductor_temperature\<close> leaves the configuration as it was.
\<close>

theorem max_current_frame:
  "(\<forall>i d cfg'. calculate_max_current cfg = (Inr (i, d), cfg') \<longrightarrow>
      cfg' = cfg\<lparr>current := i\<rparr> \<and> current cfg' = i \<and> 0 < i \<and> i < 10000 \<and>
      layers cfg' = layers cfg \<and> external_layers cfg' = external_layers cfg \<and>
      ambient_temp cfg' = ambient_temp cfg \<and>
      max_conductor_temp cfg' = max_conductor_temp cfg \<and>
      (current cfg \<noteq> i \<longrightarrow> cfg' \<noteq> cfg))
   \<and> snd (run_conductor_temperature cfg) = cfg"
proof (intro conjI allI impI)
  fix i d cfg'
  assume a: "calculate_max_current cfg = (Inr (i, d), cfg')"
  from calculate_max_current_result [OF a] have
    loop: "max_current_loop 20 0 10000 cfg = (Inr (), cfg')" and i: "current cfg' = i"
    by auto
  from max_current_loop_frame [OF loop] i have
    f: "cfg' = cfg\<lparr>current := i\<rparr>" and r: "0 < i \<and> i < 10000" by auto
  from f show "cfg' = cfg\<lparr>current := i\<rparr>" .
  from i show "current cfg' = i" .
  from r show "0 < i" "i < 10000" by simp_all
  from f show "layers cfg' = layers cfg" "external_layers cfg' = external_layers cfg"
    "ambient_temp cfg' = ambient_temp cfg" "max_conductor_temp cfg' = max_conductor_temp cfg"
    by simp_all
  assume "current cfg \<noteq> i"
  with i show "cfg' \<noteq> cfg" by auto
next
  show "snd (run_conductor_temperature cfg) = cfg"
    by (simp add: run_conductor_temperature_def)
qed

theorem max_current_frame_witness:
  "\<exists>i d cfg'. calculate_max_current (bare_conductor\<lparr>current := 0\<rparr>) = (Inr (i, d), cfg') \<and>
     cfg' = bare_conductor\<lparr>current := i\<rparr> \<and> 0 < i \<and> i < 10000 \<and>
     cfg' \<noteq> bare_conductor\<lparr>current := 0\<rparr>"
proof -
  let ?cfg = "bare_conductor\<lparr>current := 0\<rparr>"
  let ?c = "hd (layers bare_conductor)"
  have l: "layers ?cfg = ?c # []" by (simp add: bare_conductor_def)
  have v: "\<forall>l\<in>set (layers ?cfg @ external_layers ?cfg).
      0 < inner_radius l \<and> inner_radius l < outer_radius l \<longrightarrow> thermal_conductivity l \<noteq> 0"
    by (simp add: bare_conductor_def)
  have c: "(current ?cfg)\<^sup>2 < float_overflow" by (rule square_fits) simp
  have "(outer_radius ?c)\<^sup>2 < float_overflow"
    by (rule square_fits) (simp add: bare_conductor_def)
  moreover have "(inner_radius ?c)\<^sup>2 < float_overflow"
    by (rule square_fits) (simp add: bare_conductor_def)
  ultimately have oi: "resistivity ?c \<le> 0 \<or>
      (outer_radius ?c)\<^sup>2 < float_overflow \<and> (inner_radius ?c)\<^sup>2 < float_overflow" by simp
  from next_candidate_returns [OF l v c oi] obtain R where
    "\<forall>T. next_candidate ?cfg T =
      Inr (ambient_temp ?cfg + ((current ?cfg)\<^sup>2 * R T) * spec_total_thermal_resistance ?cfg)"
    ..
  from calculate_conductor_temperature_spec [OF this] obtain t0 where
    "solved_temperature ?cfg 0 = Inr t0"
    by (auto simp: solved_temperature_def simp del: spec_fixed_point.simps)
  from calculate_max_current_total [OF this] obtain i d cfg' where
    r: "calculate_max_current ?cfg = (Inr (i, d), cfg')" by blast
  note f = max_current_frame [of ?cfg, THEN conjunct1, rule_format, OF r]
  from f have "cfg' = bare_conductor\<lparr>current := i\<rparr>" by simp
  moreover from f have "0 < i" "i < 10000" by simp_all
  moreover have "cfg' \<noteq> ?cfg"
  proof
    assume "cfg' = ?cfg"
    then have "current cfg' = 0" by simp
    moreover from f have "current cfg' = i" by (elim conjE)
    ultimately show False using \<open>0 < i\<close> by simp
  qed
  ultimately show ?thesis using r by (intro exI conjI)
qed








end
